theory Spec2Isabelle
  imports Complex_Main "HOL-Library.Sublist"
begin

section \<open>The job store (database.js)\<close>

text \<open>
  A row of the \<^verbatim>\<open>projects\<close> table. The columns that no operation of the processing
  pipeline reads or writes with a computed value (customEffects, platformOptimize,
  aiIntelligence, createdAt, fileSize, userId) are left out. \<^verbatim>\<open>status\<close> and \<^verbatim>\<open>currentStep\<close>
  are TEXT columns, \<^verbatim>\<open>progress\<close> is INTEGER; \<^verbatim>\<open>thumbnail\<close> and \<^verbatim>\<open>processedVideo\<close> are
  nullable TEXT columns that \<^verbatim>\<open>createProject\<close> does not set, so they start as NULL (None).
\<close>

record project =
  pid :: string
  name :: string
  status :: string
  style :: string
  intensity :: string
  quality :: string
  progress :: int
  currentStep :: string
  thumbnail :: "string option"
  processedVideo :: "string option"
  originalVideo :: string

text \<open>
  A row of \<^verbatim>\<open>processing_history\<close>. Its id (a fresh uuid) and its timestamp (the clock)
  are left out.
\<close>

record hist_entry =
  h_project :: string
  h_step :: string
  h_status :: string
  h_message :: string

text \<open>File-system entries: a regular file with its bytes, or a directory.\<close>

datatype node = File "nat list" | Dir

text \<open>
  Everything the pipeline reads and writes: the two tables and the files on disk.
\<close>

record world =
  projects :: "string \<rightharpoonup> project"
  history :: "hist_entry list"
  files :: "string \<rightharpoonup> node"

text \<open>\<^verbatim>\<open>SELECT * FROM projects WHERE id = ?\<close>\<close>

definition getProjectById :: "string \<Rightarrow> world \<Rightarrow> project option" where
  "getProjectById i w = projects w i"

text \<open>
  \<^verbatim>\<open>UPDATE projects SET status = ?, progress = ?, currentStep = ? WHERE id = ?\<close>:
  the statement has no other condition than the id; when no row has the id, nothing
  changes and nothing is raised.
\<close>

definition updateProjectStatus :: "string \<Rightarrow> int \<Rightarrow> string \<Rightarrow> string \<Rightarrow> world \<Rightarrow> world" where
  "updateProjectStatus st pr step i w =
     (case projects w i of
        None \<Rightarrow> w
      | Some p \<Rightarrow> w\<lparr>projects := (projects w)(i \<mapsto> p\<lparr>status := st, progress := pr, currentStep := step\<rparr>)\<rparr>)"

text \<open>
  \<^verbatim>\<open>UPDATE projects SET name = ?, style = ?, intensity = ?, quality = ?, ..., thumbnail = ?,
  processedVideo = ? WHERE id = ?\<close>
\<close>

definition updateProject ::
  "string \<Rightarrow> string \<Rightarrow> string \<Rightarrow> string \<Rightarrow> string option \<Rightarrow> string option \<Rightarrow> string \<Rightarrow> world \<Rightarrow> world" where
  "updateProject n sty inten qual thumb processed i w =
     (case projects w i of
        None \<Rightarrow> w
      | Some p \<Rightarrow> w\<lparr>projects := (projects w)(i \<mapsto>
          p\<lparr>name := n, style := sty, intensity := inten, quality := qual,
            thumbnail := thumb, processedVideo := processed\<rparr>)\<rparr>)"

text \<open>\<^verbatim>\<open>INSERT INTO processing_history (id, projectId, step, status, message, timestamp)\<close>\<close>

definition addStep :: "string \<Rightarrow> string \<Rightarrow> string \<Rightarrow> string \<Rightarrow> world \<Rightarrow> world" where
  "addStep projectId step st message w =
     w\<lparr>history := history w @
        [\<lparr>h_project = projectId, h_step = step, h_status = st, h_message = message\<rparr>]\<rparr>"

section \<open>The stage library (ai-processor.js)\<close>

subsection \<open>Property access on an object literal\<close>

text \<open>
  The tables of \<^verbatim>\<open>getStyleConfig\<close> are object literals read with \<^verbatim>\<open>table[key]\<close>. Such an
  access finds the literal's own properties first and then the properties every object
  inherits from \<^verbatim>\<open>Object.prototype\<close>; only a key found in neither yields \<^verbatim>\<open>undefined\<close>.
  The inherited members are functions (and, for \<^verbatim>\<open>__proto__\<close>, the prototype object):
  all truthy, none with own enumerable properties.
\<close>

datatype 'a js_property = Own 'a | Inherited string | Undefined

definition object_prototype_names :: "string list" where
  "object_prototype_names =
     [''constructor'', ''__defineGetter__'', ''__defineSetter__'', ''hasOwnProperty'',
      ''__lookupGetter__'', ''__lookupSetter__'', ''isPrototypeOf'', ''propertyIsEnumerable'',
      ''toString'', ''valueOf'', ''__proto__'', ''toLocaleString'']"

definition js_get :: "(string \<times> 'a) list \<Rightarrow> string \<Rightarrow> 'a js_property" where
  "js_get literal key =
     (case map_of literal key of
        Some v \<Rightarrow> Own v
      | None \<Rightarrow> if key \<in> set object_prototype_names then Inherited key else Undefined)"

text \<open>
  \<^verbatim>\<open>table[key] || fallback\<close>, for a table whose own values are all truthy (they are here):
  only \<^verbatim>\<open>undefined\<close> is replaced by the fallback.
\<close>

definition js_or :: "'a js_property \<Rightarrow> 'a \<Rightarrow> 'a js_property" where
  "js_or v fallback = (case v of Undefined \<Rightarrow> Own fallback | _ \<Rightarrow> v)"

subsection \<open>getStyleConfig and buildStyleFilters\<close>

text \<open>
  The value stored under \<^verbatim>\<open>intensity\<close>: a number of the multiplier table, or an inherited
  member of the table object.
\<close>

datatype multiplier = Num rat | Member string

text \<open>
  The object \<^verbatim>\<open>getStyleConfig\<close> returns: the spread of the base configuration (each
  field present only when the spread object has it) and the multiplier.
\<close>

record style_config =
  colorGrading :: "string option"
  contrast :: "string option"
  sharpness :: "string option"
  fps :: "nat option"
  multiplier_of :: multiplier

record base_config =
  b_colorGrading :: string
  b_contrast :: string
  b_sharpness :: string
  b_fps :: nat

definition cinematic :: base_config where
  "cinematic = \<lparr>
     b_colorGrading = ''colorlevels=rimin=0.058:gimin=0.058:bimin=0.058:rimax=0.942:gimax=0.942:bimax=0.942'',
     b_contrast = ''eq=contrast=1.2:brightness=0.05:saturation=1.1'',
     b_sharpness = ''unsharp=3:3:1.5:3:3:0.5'',
     b_fps = 24\<rparr>"

definition mrbeast :: base_config where
  "mrbeast = \<lparr>
     b_colorGrading = ''colorlevels=rimin=0.1:gimin=0.1:bimin=0.1:rimax=0.9:gimax=0.9:bimax=0.9'',
     b_contrast = ''eq=contrast=1.5:brightness=0.1:saturation=1.3'',
     b_sharpness = ''unsharp=5:5:2:5:5:1'',
     b_fps = 30\<rparr>"

definition vlog :: base_config where
  "vlog = \<lparr>
     b_colorGrading = ''colorlevels=rimin=0.05:gimin=0.05:bimin=0.05:rimax=0.95:gimax=0.95:bimax=0.95'',
     b_contrast = ''eq=contrast=1.1:brightness=0.02:saturation=1.05'',
     b_sharpness = ''unsharp=2:2:0.8:2:2:0.4'',
     b_fps = 30\<rparr>"

definition podcast :: base_config where
  "podcast = \<lparr>
     b_colorGrading = ''colorlevels=rimin=0.02:gimin=0.02:bimin=0.02:rimax=0.98:gimax=0.98:bimax=0.98'',
     b_contrast = ''eq=contrast=1.05:brightness=0:saturation=0.95'',
     b_sharpness = ''unsharp=1:1:0.5:1:1:0.25'',
     b_fps = 30\<rparr>"

definition baseConfigs :: "(string \<times> base_config) list" where
  "baseConfigs =
     [(''cinematic'', cinematic), (''mrbeast'', mrbeast), (''vlog'', vlog), (''podcast'', podcast)]"

definition intensityMultipliers :: "(string \<times> rat) list" where
  "intensityMultipliers =
     [(''light'', 1/2), (''medium'', 1), (''high'', 3/2), (''extreme'', 2)]"

text \<open>
  \<^verbatim>\<open>{ ...baseConfig, intensity: multiplier }\<close>: spreading a configuration copies its four
  fields; spreading an inherited member copies nothing.
\<close>

definition getStyleConfig :: "string \<Rightarrow> string \<Rightarrow> style_config" where
  "getStyleConfig sty inten =
     (let baseConfig = js_or (js_get baseConfigs sty) cinematic;
          m = (case js_or (js_get intensityMultipliers inten) 1 of
                 Own x \<Rightarrow> Num x
               | Inherited k \<Rightarrow> Member k
               | Undefined \<Rightarrow> Num 1)
      in case baseConfig of
           Own b \<Rightarrow> \<lparr>colorGrading = Some (b_colorGrading b), contrast = Some (b_contrast b),
                     sharpness = Some (b_sharpness b), fps = Some (b_fps b), multiplier_of = m\<rparr>
         | _ \<Rightarrow> \<lparr>colorGrading = None, contrast = None, sharpness = None, fps = None,
                  multiplier_of = m\<rparr>)"

text \<open>
  One element of the filter chain: a fixed filter string, or the intensity adjustment
  \<^verbatim>\<open>eq=contrast=${1 + (intensity - 1) * 0.3}:saturation=${1 + (intensity - 1) * 0.2}\<close>,
  kept as a constructor over the multiplier because its text is the printed form of a
  floating-point product. The chain is the list that the source joins with commas.
\<close>

datatype filter_item = Lit string | IntensityEq multiplier

definition truthy_string :: "string option \<Rightarrow> bool" where
  "truthy_string s = (case s of None \<Rightarrow> False | Some x \<Rightarrow> x \<noteq> [])"

definition buildStyleFilters :: "style_config \<Rightarrow> filter_item list" where
  "buildStyleFilters styleConfig =
     (if truthy_string (colorGrading styleConfig) then [Lit (the (colorGrading styleConfig))] else []) @
     (if truthy_string (contrast styleConfig) then [Lit (the (contrast styleConfig))] else []) @
     (if truthy_string (sharpness styleConfig) then [Lit (the (sharpness styleConfig))] else []) @
     (if multiplier_of styleConfig \<noteq> Num 1 then [IntensityEq (multiplier_of styleConfig)] else []) @
     (if fps styleConfig = Some 24 then [Lit ''fps=fps=24''] else [])"


subsection \<open>Caption and quality tables\<close>

text \<open>
  The caption table of \<^verbatim>\<open>getStyleCaption\<close>; the emoji that frame each text in the source
  are left out of the strings.
\<close>

definition captions :: "(string \<times> string) list" where
  "captions =
     [(''mrbeast'', ''EPIC CONTENT''), (''cinematic'', ''CINEMATIC MASTERPIECE''),
      (''vlog'', ''DAILY VLOG''), (''podcast'', ''PODCAST EPISODE'')]"

definition getStyleCaption :: "string \<Rightarrow> string js_property" where
  "getStyleCaption sty = js_or (js_get captions sty) ''AI EDITED''"

definition qualitySettings :: "(string \<times> string list) list" where
  "qualitySettings =
     [(''720p'', [''-vf'', ''scale=1280:720'', ''-crf'', ''23'']),
      (''1080p'', [''-vf'', ''scale=1920:1080'', ''-crf'', ''20'']),
      (''4k'', [''-vf'', ''scale=3840:2160'', ''-crf'', ''18'']),
      (''8k'', [''-vf'', ''scale=7680:4320'', ''-crf'', ''16''])]"

section \<open>The external tool and the file system\<close>

text \<open>
  Paths are joined and split as \<^verbatim>\<open>path.join\<close> and \<^verbatim>\<open>path.dirname\<close> do on normalised
  paths with no trailing separator.
\<close>

definition path_join :: "string \<Rightarrow> string \<Rightarrow> string" where
  "path_join a b = (if b = [] then a else if a = [] then b else a @ ''/'' @ b)"

definition dirname :: "string \<Rightarrow> string" where
  "dirname p =
     (if CHR ''/'' \<notin> set p then ''.''
      else let d = rev (tl (dropWhile (\<lambda>c. c \<noteq> CHR ''/'') (rev p)))
           in if d = [] then ''/'' else d)"

type_synonym fs = "string \<rightharpoonup> node"

text \<open>
  A call that may throw: \<open>Inl\<close> carries the message of the thrown \<^verbatim>\<open>Error\<close>, and the
  file system the call leaves behind comes with either outcome.
\<close>

type_synonym 'a result = "(string + 'a) \<times> fs"

definition andThen :: "'a result \<Rightarrow> ('a \<Rightarrow> fs \<Rightarrow> 'b result) \<Rightarrow> 'b result" where
  "andThen r f = (case r of (Inl e, fs') \<Rightarrow> (Inl e, fs') | (Inr v, fs') \<Rightarrow> f v fs')"

text \<open>
  fs-extra. \<^verbatim>\<open>ensureDir\<close> fails on a path that is a regular file; \<^verbatim>\<open>copy\<close> fails when the
  source does not exist and overwrites the destination otherwise (the sources copied here
  are regular files; a directory source is copied as the directory entry alone);
  \<^verbatim>\<open>remove\<close> deletes the entry and everything below it and never fails on a missing path.
\<close>

definition ensureDir :: "string \<Rightarrow> fs \<Rightarrow> unit result" where
  "ensureDir d fs =
     (case fs d of
        Some (File b) \<Rightarrow> (Inl (''EEXIST: file already exists, mkdir '' @ d), fs)
      | _ \<Rightarrow> (Inr (), fs(d \<mapsto> Dir)))"

definition copy :: "string \<Rightarrow> string \<Rightarrow> fs \<Rightarrow> unit result" where
  "copy src dst fs =
     (case fs src of
        None \<Rightarrow> (Inl (''ENOENT: no such file or directory, lstat '' @ src), fs)
      | Some n \<Rightarrow> (Inr (), fs(dst \<mapsto> n)))"

definition below :: "string \<Rightarrow> string \<Rightarrow> bool" where
  "below d p = (p = d \<or> prefix (d @ ''/'') p)"

definition remove :: "string \<Rightarrow> fs \<Rightarrow> fs" where
  "remove d fs = (\<lambda>p. if below d p then None else fs p)"

text \<open>
  The argument list handed to the tool. The arguments the source computes as text from
  numbers or tables are kept structured, and the argument that names the file the tool
  is to write (the last one of a command that has an output file) is marked \<open>Out\<close>.
\<close>

datatype jump_filter = TrimConcat "(nat \<times> rat \<times> rat) list" | CopyVideo

datatype arg = A string | Out string | Filters "filter_item list" | FilterComplex jump_filter
  | DrawText "string js_property"

text \<open>
  What a run of the tool can do: exit with code 0 having printed \<open>stdout\<close> and, when it
  produced its output file, the bytes of that file; exit with another code having printed
  \<open>stderr\<close>; or fail to start. ffprobe either prints JSON (with or without a \<^verbatim>\<open>format\<close>
  member), prints something that does not parse, or exits with a non-zero code.
\<close>

datatype tool_result = Exit0 string "nat list option" | ExitNonZero string | SpawnError string

datatype probe_result = ProbeJson bool | ProbeGarbage | ProbeExit string

datatype cloud_result =
    UploadThrows string
  | SubmitThrows string
  | PollThrows string
  | RenderUnsuccessful string
  | RenderDone "string option" "nat list option"

text \<open>
  The environment of the server process: its configuration, the directories it created
  at start-up, and the behaviour of everything outside it. The tools are functions of
  their arguments and of the files they can read. The two regular-expression matches of
  \<^verbatim>\<open>detectScenes\<close> give the numbers they capture, or \<open>None\<close> for JavaScript's \<^verbatim>\<open>null\<close>
  (no match); the doubles are modelled by rationals. \<open>cloud\<close> is what the Shotstack
  calls of one run do.
\<close>

record env =
  AI_MODE :: "string option"
  shotstack_loaded :: bool
  uploadsDir :: string
  projectsDir :: string
  editedDir :: string
  ffmpeg :: "arg list \<Rightarrow> fs \<Rightarrow> tool_result"
  ffprobe :: "string \<Rightarrow> fs \<Rightarrow> probe_result"
  match_silence_start :: "string \<Rightarrow> rat list option"
  match_silence_end :: "string \<Rightarrow> rat list option"
  cloud :: cloud_result

definition output_path :: "arg list \<Rightarrow> string option" where
  "output_path args =
     (case rev args of
        Out p # _ \<Rightarrow> Some p
      | _ \<Rightarrow> None)"

text \<open>
  \<^verbatim>\<open>runCommand\<close>: resolves with the captured standard output when the exit code is 0,
  rejects with \<^verbatim>\<open>Command failed: <stderr>\<close> otherwise, and with
  \<^verbatim>\<open>Failed to start command: <message>\<close> when the process cannot be spawned.
\<close>

definition runCommand :: "env \<Rightarrow> arg list \<Rightarrow> fs \<Rightarrow> string result" where
  "runCommand e args fs =
     (case ffmpeg e args fs of
        Exit0 out written \<Rightarrow>
          (Inr out, case (written, output_path args) of
                      (Some bytes, Some p) \<Rightarrow> fs(p \<mapsto> File bytes)
                    | _ \<Rightarrow> fs)
      | ExitNonZero err \<Rightarrow> (Inl (''Command failed: '' @ err), fs)
      | SpawnError m \<Rightarrow> (Inl (''Failed to start command: '' @ m), fs))"

section \<open>AIVideoProcessor (ai-processor.js)\<close>

text \<open>The argument lists of the seven commands the processor runs.\<close>

definition versionArgs :: "arg list" where
  "versionArgs = [A ''-version'']"

definition extractAudioArgs :: "string \<Rightarrow> string \<Rightarrow> arg list" where
  "extractAudioArgs videoPath audioPath =
     [A ''-i'', A videoPath, A ''-vn'', A ''-acodec'', A ''pcm_s16le'',
      A ''-ar'', A ''44100'', A ''-ac'', A ''1'', Out audioPath]"

definition silenceDetectArgs :: "string \<Rightarrow> arg list" where
  "silenceDetectArgs audioPath =
     [A ''-i'', A audioPath, A ''-af'', A ''silencedetect=noise=-50dB:d=0.5'',
      A ''-f'', A ''null'', A ''-'']"

definition styleArgs :: "string \<Rightarrow> filter_item list \<Rightarrow> string \<Rightarrow> arg list" where
  "styleArgs videoPath filters outputPath =
     [A ''-i'', A videoPath, A ''-vf'', Filters filters,
      A ''-c:a'', A ''copy'', A ''-preset'', A ''medium'', Out outputPath]"

definition jumpCutArgs :: "string \<Rightarrow> jump_filter \<Rightarrow> string \<Rightarrow> arg list" where
  "jumpCutArgs videoPath filterComplex outputPath =
     [A ''-i'', A videoPath, A ''-filter_complex'', FilterComplex filterComplex,
      A ''-c:a'', A ''copy'', A ''-preset'', A ''fast'', Out outputPath]"

definition captionArgs :: "string \<Rightarrow> string js_property \<Rightarrow> string \<Rightarrow> arg list" where
  "captionArgs videoPath captionText outputPath =
     [A ''-i'', A videoPath, A ''-vf'', DrawText captionText,
      A ''-c:a'', A ''copy'', A ''-preset'', A ''medium'', Out outputPath]"

definition qualityArgs :: "string \<Rightarrow> string list \<Rightarrow> string \<Rightarrow> arg list" where
  "qualityArgs inputPath settings outputPath =
     [A ''-i'', A inputPath] @ map A settings @
     [A ''-c:a'', A ''aac'', A ''-b:a'', A ''128k'', A ''-preset'', A ''slow'',
      A ''-movflags'', A ''+faststart'', Out outputPath]"

definition checkFFmpeg :: "env \<Rightarrow> fs \<Rightarrow> bool \<times> fs" where
  "checkFFmpeg e fs =
     (case runCommand e versionArgs fs of
        (Inr out, fs') \<Rightarrow> (True, fs')
      | (Inl err, fs') \<Rightarrow> (False, fs'))"

definition getVideoInfo :: "env \<Rightarrow> string \<Rightarrow> fs \<Rightarrow> bool result" where
  "getVideoInfo e videoPath fs =
     (case ffprobe e videoPath fs of
        ProbeJson has_format \<Rightarrow> (Inr has_format, fs)
      | ProbeGarbage \<Rightarrow> (Inl ''Failed to parse video info'', fs)
      | ProbeExit err \<Rightarrow> (Inl (''FFprobe failed: '' @ err), fs))"

text \<open>
  The loop of \<^verbatim>\<open>detectScenes\<close> over the silence matches: the i-th end is read for every
  start, so a missing end raises a TypeError (\<open>None\<close>); a silence longer than 0.5 s is
  kept as a scene (start, end).
\<close>

fun collect_scenes :: "rat list \<Rightarrow> rat list \<Rightarrow> (rat \<times> rat) list option" where
  "collect_scenes [] ends = Some []"
| "collect_scenes (s # ss) [] = None"
| "collect_scenes (s # ss) (e # es) =
     (case collect_scenes ss es of
        None \<Rightarrow> None
      | Some r \<Rightarrow> Some (if e - s > 1/2 then (s, e) # r else r))"

definition parse_scenes :: "env \<Rightarrow> string \<Rightarrow> (rat \<times> rat) list option" where
  "parse_scenes e silenceInfo =
     (case (match_silence_start e silenceInfo, match_silence_end e silenceInfo) of
        (Some starts, Some ends) \<Rightarrow> collect_scenes starts ends
      | _ \<Rightarrow> Some [])"

text \<open>
  \<^verbatim>\<open>detectScenes\<close> never throws: every failure inside its \<^verbatim>\<open>try\<close> is caught and answered
  with the empty list. The temporary audio file is removed only on the path that reaches
  the end of the \<^verbatim>\<open>try\<close>.
\<close>

definition detectScenes :: "env \<Rightarrow> string \<Rightarrow> string \<Rightarrow> fs \<Rightarrow> (rat \<times> rat) list \<times> fs" where
  "detectScenes e videoPath outputPath fs =
     (let audioPath = path_join (dirname outputPath) ''temp_audio.wav''
      in case runCommand e (extractAudioArgs videoPath audioPath) fs of
           (Inl err, fs1) \<Rightarrow> ([], fs1)
         | (Inr out, fs1) \<Rightarrow>
             (case runCommand e (silenceDetectArgs audioPath) fs1 of
                (Inl err, fs2) \<Rightarrow> ([], fs2)
              | (Inr silenceInfo, fs2) \<Rightarrow>
                  (case parse_scenes e silenceInfo of
                     None \<Rightarrow> ([], fs2)
                   | Some scenes \<Rightarrow> (scenes, remove audioPath fs2))))"

definition applyStyle :: "env \<Rightarrow> string \<Rightarrow> string \<Rightarrow> string \<Rightarrow> string \<Rightarrow> fs \<Rightarrow> bool result" where
  "applyStyle e videoPath outputPath sty inten fs =
     (let styleConfig = getStyleConfig sty inten;
          filters = buildStyleFilters styleConfig
      in andThen (runCommand e (styleArgs videoPath filters outputPath) fs)
           (\<lambda>out fs'. (Inr True, fs')))"

definition buildJumpCutFilter :: "(rat \<times> rat) list \<Rightarrow> string \<Rightarrow> jump_filter" where
  "buildJumpCutFilter scenes sty =
     (let cutThreshold = (if sty = ''mrbeast'' then 3/10 else 1/2 :: rat);
          outputs = [(i, s, e). (i, s, e) \<leftarrow> zip [0..<length scenes] scenes, e - s > cutThreshold]
      in if length outputs > 0 then TrimConcat outputs else CopyVideo)"

text \<open>
  \<^verbatim>\<open>applyJumpCuts\<close> and \<^verbatim>\<open>addCaptions\<close>: whatever the \<^verbatim>\<open>try\<close> block throws is caught and
  answered by copying the input video to the output path; only that copy can make the
  method throw.
\<close>

definition applyJumpCuts :: "env \<Rightarrow> string \<Rightarrow> string \<Rightarrow> string \<Rightarrow> fs \<Rightarrow> unit result" where
  "applyJumpCuts e videoPath outputPath sty fs =
     (let (scenes, fs1) = detectScenes e videoPath outputPath fs;
          tried = (if length scenes = 0 then copy videoPath outputPath fs1
                   else andThen (runCommand e (jumpCutArgs videoPath
                                    (buildJumpCutFilter scenes sty) outputPath) fs1)
                          (\<lambda>out fs'. (Inr (), fs')))
      in case tried of
           (Inr u, fs2) \<Rightarrow> (Inr (), fs2)
         | (Inl err, fs2) \<Rightarrow> copy videoPath outputPath fs2)"

definition addCaptions :: "env \<Rightarrow> string \<Rightarrow> string \<Rightarrow> string \<Rightarrow> fs \<Rightarrow> unit result" where
  "addCaptions e videoPath outputPath sty fs =
     (case runCommand e (captionArgs videoPath (getStyleCaption sty) outputPath) fs of
        (Inr out, fs1) \<Rightarrow> (Inr (), fs1)
      | (Inl err, fs1) \<Rightarrow> copy videoPath outputPath fs1)"

text \<open>
  \<^verbatim>\<open>optimizeQuality\<close> spreads the looked-up settings into the argument list; an inherited
  member is not iterable, so the spread throws.
\<close>

definition optimizeQuality :: "env \<Rightarrow> string \<Rightarrow> string \<Rightarrow> string \<Rightarrow> fs \<Rightarrow> unit result" where
  "optimizeQuality e inputPath outputPath qual fs =
     (case js_or (js_get qualitySettings qual) [''-vf'', ''scale=1920:1080'', ''-crf'', ''20''] of
        Own settings \<Rightarrow>
          andThen (runCommand e (qualityArgs inputPath settings outputPath) fs)
            (\<lambda>out fs'. (Inr (), fs'))
      | _ \<Rightarrow> (Inl ''settings is not iterable'', fs))"

text \<open>
  \<^verbatim>\<open>processVideo\<close>, the main pipeline. Its \<^verbatim>\<open>catch\<close> logs and rethrows, so a failing step
  ends the method with that step's error and with the files as they are at that point;
  \<^verbatim>\<open>fs.remove(tempDir)\<close> is the last statement of the \<^verbatim>\<open>try\<close> block.
\<close>

definition processVideo ::
  "env \<Rightarrow> string \<Rightarrow> string \<Rightarrow> string \<Rightarrow> string \<Rightarrow> string \<Rightarrow> fs \<Rightarrow> bool result" where
  "processVideo e inputPath outputPath sty inten qual fs =
     (case checkFFmpeg e fs of
        (False, fs0) \<Rightarrow> (Inl ''FFmpeg not available'', fs0)
      | (True, fs0) \<Rightarrow>
          andThen (getVideoInfo e inputPath fs0) (\<lambda>has_format fs0.
            if \<not> has_format
            then (Inl ''Cannot read properties of undefined (reading duration)'', fs0)
            else
              let tempDir = path_join (dirname outputPath) ''temp_processing''
              in andThen (ensureDir tempDir fs0) (\<lambda>u fs1.
                let styledPath = path_join tempDir ''styled.mp4''
                in andThen (applyStyle e inputPath styledPath sty inten fs1) (\<lambda>ok fs2.
                  let cutPath = path_join tempDir ''cut.mp4''
                  in andThen (if sty \<in> set [''mrbeast'', ''cinematic'', ''vlog'']
                              then applyJumpCuts e styledPath cutPath sty fs2
                              else copy styledPath cutPath fs2) (\<lambda>u fs3.
                    let captionedPath = path_join tempDir ''captioned.mp4''
                    in andThen (addCaptions e cutPath captionedPath sty fs3) (\<lambda>u fs4.
                      andThen (optimizeQuality e captionedPath outputPath qual fs4) (\<lambda>u fs5.
                        (Inr True, remove tempDir fs5))))))))"


section \<open>The orchestrator (server.js)\<close>

text \<open>
  A run is recorded as the list of the states it passes through: the state it starts
  from, then the state after each statement that writes to the store or to the disk.
  A poll of the progress endpoint between two writes reads the latest of them.
\<close>

type_synonym trace = "world list"

definition commit :: "(world \<Rightarrow> world) \<Rightarrow> trace \<Rightarrow> trace" where
  "commit f t = t @ [f (last t)]"

text \<open>\<^verbatim>\<open>process.env.AI_MODE || 'ffmpeg'\<close>\<close>

definition mode :: "env \<Rightarrow> string" where
  "mode e = (case AI_MODE e of None \<Rightarrow> ''ffmpeg'' | Some m \<Rightarrow> if m = [] then ''ffmpeg'' else m)"

text \<open>\<^verbatim>\<open>mode === 'shotstack' && shotstack\<close>: the mode is set and the module was loaded.\<close>

definition use_shotstack :: "env \<Rightarrow> bool" where
  "use_shotstack e = (mode e = ''shotstack'' \<and> shotstack_loaded e)"

text \<open>\<^verbatim>\<open>value || fallback\<close> on a nullable TEXT column.\<close>

definition text_or :: "string option \<Rightarrow> string \<Rightarrow> string" where
  "text_or v fallback = (case v of None \<Rightarrow> fallback | Some x \<Rightarrow> if x = [] then fallback else x)"

text \<open>The local function \<^verbatim>\<open>updateProgress\<close> of \<^verbatim>\<open>processVideoWithAI\<close>.\<close>

definition updateProgress :: "string \<Rightarrow> int \<Rightarrow> string \<Rightarrow> trace \<Rightarrow> trace" where
  "updateProgress projectId pr message t =
     commit (addStep projectId ''progress_update'' ''success'' message)
       (commit (updateProjectStatus ''processing'' pr message projectId) t)"

text \<open>The \<^verbatim>\<open>catch\<close> block of \<^verbatim>\<open>processVideoWithAI\<close>.\<close>

definition catchBlock :: "string \<Rightarrow> string \<Rightarrow> trace \<Rightarrow> trace" where
  "catchBlock projectId message t =
     commit (addStep projectId ''error'' ''error'' message)
       (commit (updateProjectStatus ''error'' 0 (''Error: '' @ message) projectId) t)"

text \<open>
  The end of the \<^verbatim>\<open>try\<close> block, from \<^verbatim>\<open>Step 5\<close> on. The last test reads the configured
  mode alone, not whether the Shotstack module was loaded.
\<close>

definition finishProcessing :: "env \<Rightarrow> project \<Rightarrow> string \<Rightarrow> trace \<Rightarrow> trace" where
  "finishProcessing e project projectId t =
     (let t1 = updateProgress projectId 100 ''Finalizing video...'' t;
          t2 = (if mode e \<noteq> ''shotstack''
                then commit (updateProject (name project) (style project) (intensity project)
                              (quality project)
                              (Some (''thumbnail-'' @ pid project @ ''.jpg''))
                              (Some (''processed-'' @ pid project @ ''.mp4'')) projectId) t1
                else t1)
      in commit (updateProjectStatus ''completed'' 100 ''Processing completed successfully''
                  projectId) t2)"

text \<open>
  The Shotstack branch of \<^verbatim>\<open>Step 4\<close>. The three progress writes are interleaved with the
  three calls: a call that throws stops the branch after the writes that precede it.
\<close>

definition cloudRender :: "env \<Rightarrow> project \<Rightarrow> string \<Rightarrow> trace \<Rightarrow> trace" where
  "cloudRender e project projectId t =
     (let t1 = updateProgress projectId 76 ''Uploading to cloud renderer...'' t;
          t2 = updateProgress projectId 82 ''Submitting cloud render...'' t1;
          t3 = updateProgress projectId 90 ''Rendering in the cloud...'' t2
      in (case cloud e of
            UploadThrows m \<Rightarrow> catchBlock projectId m t1
          | SubmitThrows m \<Rightarrow> catchBlock projectId m t2
          | PollThrows m \<Rightarrow> catchBlock projectId m t3
          | RenderUnsuccessful st \<Rightarrow>
              catchBlock projectId
                (''Cloud render failed: '' @ (if st = [] then ''unknown'' else st)) t3
          | RenderDone url downloaded \<Rightarrow>
              (if text_or url [] = []
               then catchBlock projectId ''Cloud render failed: done'' t3
               else
                 (let localEditedName = ''edited-'' @ pid project @ ''.mp4'';
                      t4 = (case downloaded of
                              Some bytes \<Rightarrow>
                                commit (\<lambda>w. w\<lparr>files := (files w)
                                  (path_join (editedDir e) localEditedName \<mapsto> File bytes)\<rparr>) t3
                            | None \<Rightarrow> t3);
                      processedField = (case downloaded of
                                          Some bytes \<Rightarrow> localEditedName
                                        | None \<Rightarrow> text_or url []);
                      t5 = commit (updateProject (name project) (style project)
                                    (intensity project) (quality project)
                                    (Some (text_or (thumbnail project) ''demo-thumbnail.jpg''))
                                    (Some processedField) projectId) t4
                  in finishProcessing e project projectId t5))))"

text \<open>
  The writes that open the \<^verbatim>\<open>try\<close> block of \<^verbatim>\<open>processVideoWithAI\<close>: the status
  write and \<^verbatim>\<open>Step 1\<close> to \<^verbatim>\<open>Step 4\<close>, each followed in the source by a timer that
  only waits.
\<close>

definition firstSteps :: "string \<Rightarrow> trace \<Rightarrow> trace" where
  "firstSteps projectId t =
     (let t0 = commit (updateProjectStatus ''processing'' 0 ''Starting AI processing'' projectId) t;
          t1 = updateProgress projectId 10 ''Analyzing video content...'' t0;
          t2 = updateProgress projectId 25 ''Detecting scenes and cuts...'' t1;
          t3 = updateProgress projectId 50 ''Applying AI editing style...'' t2
      in updateProgress projectId 75 ''Processing with AI algorithms...'' t3)"

text \<open>
  \<^verbatim>\<open>processVideoWithAI\<close>. The whole body is one \<^verbatim>\<open>try\<close> whose \<^verbatim>\<open>catch\<close> writes the error
  to the store and does not rethrow: the function returns normally on every path.
\<close>

definition processVideoWithAI :: "env \<Rightarrow> string \<Rightarrow> trace \<Rightarrow> trace" where
  "processVideoWithAI e projectId t =
     (case getProjectById projectId (last t) of
        None \<Rightarrow> t
      | Some project \<Rightarrow>
          let inputPath = path_join (uploadsDir e) (originalVideo project);
              outputPath = path_join (projectsDir e) (''processed-'' @ pid project @ ''.mp4'');
              t4 = firstSteps projectId t
          in if use_shotstack e
             then cloudRender e project projectId t4
             else
               (case processVideo e inputPath outputPath (style project) (intensity project)
                       (quality project) (files (last t4)) of
                  (Inl message, fs') \<Rightarrow>
                    catchBlock projectId message (commit (\<lambda>w. w\<lparr>files := fs'\<rparr>) t4)
                | (Inr ok, fs') \<Rightarrow>
                    finishProcessing e project projectId (commit (\<lambda>w. w\<lparr>files := fs'\<rparr>) t4)))"

text \<open>
  The older server file has the same function without the Shotstack branch and without
  the mode test before \<^verbatim>\<open>updateProject\<close>.
\<close>

definition processVideoWithAI_legacy :: "env \<Rightarrow> string \<Rightarrow> trace \<Rightarrow> trace" where
  "processVideoWithAI_legacy e projectId t =
     (case getProjectById projectId (last t) of
        None \<Rightarrow> t
      | Some project \<Rightarrow>
          let inputPath = path_join (uploadsDir e) (originalVideo project);
              outputPath = path_join (projectsDir e) (''processed-'' @ pid project @ ''.mp4'');
              t4 = firstSteps projectId t
          in (case processVideo e inputPath outputPath (style project) (intensity project)
                     (quality project) (files (last t4)) of
                (Inl message, fs') \<Rightarrow>
                  catchBlock projectId message (commit (\<lambda>w. w\<lparr>files := fs'\<rparr>) t4)
              | (Inr ok, fs') \<Rightarrow>
                  (let t5 = updateProgress projectId 100 ''Finalizing video...''
                              (commit (\<lambda>w. w\<lparr>files := fs'\<rparr>) t4);
                       t6 = commit (updateProject (name project) (style project) (intensity project)
                                     (quality project)
                                     (Some (''thumbnail-'' @ pid project @ ''.jpg''))
                                     (Some (''processed-'' @ pid project @ ''.mp4'')) projectId) t5
                   in commit (updateProjectStatus ''completed'' 100
                               ''Processing completed successfully'' projectId) t6)))"

subsection \<open>The simulation\<close>

definition mp4Header :: "nat list" where
  "mp4Header =
     [0x00, 0x00, 0x00, 0x20, 0x66, 0x74, 0x79, 0x70, 0x69, 0x73, 0x6F, 0x6D,
      0x00, 0x00, 0x02, 0x00, 0x69, 0x73, 0x6F, 0x6D, 0x69, 0x73, 0x6F, 0x32,
      0x61, 0x76, 0x63, 0x31, 0x6D, 0x70, 0x34, 0x31]"

definition jpegHeader :: "nat list" where
  "jpegHeader =
     [0xFF, 0xD8, 0xFF, 0xE0, 0x00, 0x10, 0x4A, 0x46, 0x49, 0x46, 0x00, 0x01,
      0x01, 0x01, 0x00, 0x48, 0x00, 0x48, 0x00, 0x00]"

definition createDemoVideo :: "env \<Rightarrow> world \<Rightarrow> world" where
  "createDemoVideo e w =
     (let demoVideoPath = path_join (projectsDir e) ''demo-video.mp4''
      in if files w demoVideoPath = None
         then w\<lparr>files := (files w)(demoVideoPath \<mapsto> File mp4Header)\<rparr>
         else w)"

definition createDemoThumbnail :: "env \<Rightarrow> world \<Rightarrow> world" where
  "createDemoThumbnail e w =
     (let demoThumbnailPath = path_join (projectsDir e) ''demo-thumbnail.jpg''
      in if files w demoThumbnailPath = None
         then w\<lparr>files := (files w)(demoThumbnailPath \<mapsto> File jpegHeader)\<rparr>
         else w)"

definition processingSteps :: "(string \<times> int) list" where
  "processingSteps =
     [(''Analyzing video content'', 20), (''Detecting scenes and cuts'', 40),
      (''Applying style effects'', 60), (''Color grading and enhancement'', 80),
      (''Final rendering'', 100)]"

text \<open>
  \<^verbatim>\<open>simulateAIProcessing\<close>: the first two writes happen in the call itself, the others
  in the timer callbacks it chains; the trace lists them in the order they happen.
\<close>

definition simulateAIProcessing :: "env \<Rightarrow> string \<Rightarrow> trace \<Rightarrow> trace" where
  "simulateAIProcessing e projectId t =
     (case getProjectById projectId (last t) of
        None \<Rightarrow> t
      | Some project \<Rightarrow>
          let t0 = commit (updateProjectStatus ''processing'' 0 ''Starting simulation processing''
                            projectId) t;
              t1 = fold (\<lambda>(step_name, step_progress).
                           commit (updateProjectStatus ''processing'' step_progress step_name projectId))
                     processingSteps t0;
              t2 = commit (updateProjectStatus ''completed'' 100 ''Simulation processing completed''
                            projectId) t1;
              t3 = commit (updateProject (name project) (style project) (intensity project)
                            (quality project) (Some ''demo-thumbnail.jpg'')
                            (Some ''demo-video.mp4'') projectId) t2;
              t4 = commit (createDemoVideo e) t3;
              t5 = commit (createDemoThumbnail e) t4
          in commit (addStep projectId ''completion'' ''success''
                      ''Simulation processing completed successfully'') t5)"

subsection \<open>Retry and fallback\<close>

text \<open>
  What a call of \<^verbatim>\<open>startProcessingWithRetry\<close> did: how many times it called \<^verbatim>\<open>run\<close>, the
  delays (in ms) it waited between attempts, whether it called the fallback, and the
  states passed through.
\<close>

record retry_result =
  attempts :: nat
  backoff :: "nat list"
  fell_back :: bool
  final :: trace

text \<open>
  The \<^verbatim>\<open>for\<close> loop of \<^verbatim>\<open>startProcessingWithRetry\<close>, from attempt number \<open>attempt\<close> on.
  The closure \<^verbatim>\<open>run\<close> is a parameter: given the attempt number and the trace so far it
  either returns (\<open>None\<close>) or throws (\<open>Some message\<close>). An exception of the fallback is
  swallowed by the empty \<^verbatim>\<open>catch\<close>.
\<close>

function startProcessingWithRetry_loop ::
  "(nat \<Rightarrow> trace \<Rightarrow> string option \<times> trace) \<Rightarrow> env \<Rightarrow> string \<Rightarrow> nat \<Rightarrow> nat \<Rightarrow> nat list \<Rightarrow> trace
     \<Rightarrow> retry_result" where
  "startProcessingWithRetry_loop run_fn e projectId retries attempt delays t =
     (if attempt \<le> retries
      then (case run_fn attempt t of
              (None, t') \<Rightarrow>
                \<lparr>attempts = attempt, backoff = delays, fell_back = False, final = t'\<rparr>
            | (Some message, t') \<Rightarrow>
                if attempt = retries
                then \<lparr>attempts = attempt, backoff = delays, fell_back = True,
                      final = simulateAIProcessing e projectId t'\<rparr>
                else startProcessingWithRetry_loop run_fn e projectId retries (attempt + 1)
                       (delays @ [1000 * attempt]) t')
      else \<lparr>attempts = attempt - 1, backoff = delays, fell_back = False, final = t\<rparr>)"
  by pat_completeness auto
termination
  by (relation "measure (\<lambda>(run_fn, e, projectId, retries, attempt, delays, t). retries + 1 - attempt)")
     auto

declare startProcessingWithRetry_loop.simps [simp del]

text \<open>
  The closure \<^verbatim>\<open>run\<close> as the source defines it. Neither function it calls lets an
  exception out.
\<close>

definition run :: "env \<Rightarrow> string \<Rightarrow> nat \<Rightarrow> trace \<Rightarrow> string option \<times> trace" where
  "run e projectId attempt t =
     (if AI_MODE e = Some ''simulate''
      then (None, simulateAIProcessing e projectId t)
      else (None, processVideoWithAI e projectId t))"

definition startProcessingWithRetry :: "env \<Rightarrow> string \<Rightarrow> nat \<Rightarrow> trace \<Rightarrow> retry_result" where
  "startProcessingWithRetry e projectId retries t =
     startProcessingWithRetry_loop (run e projectId) e projectId retries 1 [] t"

subsection \<open>HTTP handlers\<close>

datatype response = Response nat string

text \<open>\<^verbatim>\<open>POST /api/projects/:id/process\<close>\<close>

definition post_process :: "env \<Rightarrow> string \<Rightarrow> world \<Rightarrow> response \<times> trace" where
  "post_process e i w =
     (case getProjectById i w of
        None \<Rightarrow> (Response 404 ''Project not found'', [w])
      | Some project \<Rightarrow>
          if status project = ''processing''
          then (Response 400 ''Project is already processing'', [w])
          else
            let t0 = commit (updateProjectStatus ''processing'' 0 ''Starting AI processing'' i) [w];
                t1 = commit (addStep i ''start_processing'' ''success'' ''AI processing started'') t0
            in (Response 200 ''AI processing started'',
                final (startProcessingWithRetry e i 3 t1)))"

text \<open>\<^verbatim>\<open>GET /api/projects/:id/progress\<close>: status, progress and currentStep of the row.\<close>

definition get_progress :: "string \<Rightarrow> world \<Rightarrow> (string \<times> int \<times> string) option" where
  "get_progress i w =
     (case getProjectById i w of
        None \<Rightarrow> None
      | Some project \<Rightarrow> Some (status project, progress project, currentStep project))"

text \<open>
  \<^verbatim>\<open>POST /api/render/webhook\<close>, with the status, the output URL and the project id as the
  handler extracts them from the request.
\<close>

record webhook_request =
  hook_status :: "string option"
  hook_outputUrl :: "string option"
  hook_projectId :: "string option"

definition render_webhook :: "webhook_request \<Rightarrow> world \<Rightarrow> response \<times> trace" where
  "render_webhook r w =
     (if text_or (hook_projectId r) [] = []
      then (Response 202 ''No projectId provided'', [w])
      else
        let projectId = text_or (hook_projectId r) []
        in case getProjectById projectId w of
             None \<Rightarrow> (Response 404 ''Project not found'', [w])
           | Some project \<Rightarrow>
               if hook_status r = Some ''done'' \<and> text_or (hook_outputUrl r) [] \<noteq> []
               then
                 (Response 200 ''success'',
                  commit (updateProjectStatus ''completed'' 100 ''Processing completed via webhook''
                           projectId)
                    (commit (updateProject (name project) (style project) (intensity project)
                              (quality project)
                              (Some (text_or (thumbnail project)
                                       (''thumbnail-'' @ pid project @ ''.jpg'')))
                              (hook_outputUrl r) projectId) [w]))
               else if hook_status r \<in> {Some ''failed'', Some ''error'', Some ''cancelled''}
               then
                 (Response 200 ''success'',
                  commit (updateProjectStatus ''error'' 0
                           (''Render failed ('' @ the (hook_status r) @ '')'') projectId) [w])
               else (Response 202 ''received'', [w]))"


section \<open>Predicates on states and traces\<close>

text \<open>
  A job in status \<^verbatim>\<open>error\<close> has progress 0 (a job that does not exist satisfies this).
\<close>

definition error_has_zero_progress :: "string \<Rightarrow> world \<Rightarrow> bool" where
  "error_has_zero_progress i w =
     (case getProjectById i w of
        None \<Rightarrow> True
      | Some p \<Rightarrow> status p = ''error'' \<longrightarrow> progress p = 0)"

text \<open>
  What a client polling the progress endpoint reads when it polls once in every state of
  a trace (404 answers dropped), and the job rows themselves.
\<close>

definition polls :: "string \<Rightarrow> trace \<Rightarrow> (string \<times> int \<times> string) list" where
  "polls i t = List.map_filter (get_progress i) t"


definition poll_progress :: "string \<times> int \<times> string \<Rightarrow> int" where
  "poll_progress x = fst (snd x)"

text \<open>
  The two halves of the store invariant the specification states, and the two
  implications from \<^verbatim>\<open>completed\<close> that are its sound part.
\<close>

definition output_iff_completed :: "string \<Rightarrow> world \<Rightarrow> bool" where
  "output_iff_completed i w =
     (case getProjectById i w of
        None \<Rightarrow> True
      | Some p \<Rightarrow> (processedVideo p \<noteq> None) = (status p = ''completed''))"

definition full_iff_completed :: "string \<Rightarrow> world \<Rightarrow> bool" where
  "full_iff_completed i w =
     (case getProjectById i w of
        None \<Rightarrow> True
      | Some p \<Rightarrow> (progress p = 100) = (status p = ''completed''))"

definition completed_is_full :: "string \<Rightarrow> world \<Rightarrow> bool" where
  "completed_is_full i w =
     (case getProjectById i w of
        None \<Rightarrow> True
      | Some p \<Rightarrow> status p = ''completed'' \<longrightarrow> progress p = 100)"

definition completed_has_output :: "string \<Rightarrow> world \<Rightarrow> bool" where
  "completed_has_output i w =
     (case getProjectById i w of
        None \<Rightarrow> True
      | Some p \<Rightarrow> status p = ''completed'' \<longrightarrow> processedVideo p \<noteq> None)"

text \<open>
  Rows as the two UPDATE statements leave them, and the rows that the opening writes of
  a run leave one after the other (each \<^verbatim>\<open>updateProgress\<close> is two writes, the second to
  the history, so its row appears twice).
\<close>

definition with_status :: "project \<Rightarrow> string \<Rightarrow> int \<Rightarrow> string \<Rightarrow> project" where
  "with_status p st pr step = p\<lparr>status := st, progress := pr, currentStep := step\<rparr>"

definition with_output :: "project \<Rightarrow> project \<Rightarrow> string \<Rightarrow> string \<Rightarrow> project" where
  "with_output q p thumb processed =
     q\<lparr>name := name p, style := style p, intensity := intensity p, quality := quality p,
       thumbnail := Some thumb, processedVideo := Some processed\<rparr>"

definition first_rows :: "project \<Rightarrow> project list" where
  "first_rows p =
     [with_status p ''processing'' 0 ''Starting AI processing'',
      with_status p ''processing'' 10 ''Analyzing video content...'',
      with_status p ''processing'' 10 ''Analyzing video content...'',
      with_status p ''processing'' 25 ''Detecting scenes and cuts...'',
      with_status p ''processing'' 25 ''Detecting scenes and cuts...'',
      with_status p ''processing'' 50 ''Applying AI editing style...'',
      with_status p ''processing'' 50 ''Applying AI editing style...'',
      with_status p ''processing'' 75 ''Processing with AI algorithms...'',
      with_status p ''processing'' 75 ''Processing with AI algorithms...'']"

definition cloud_rows :: "project \<Rightarrow> project list" where
  "cloud_rows p =
     [with_status p ''processing'' 76 ''Uploading to cloud renderer...'',
      with_status p ''processing'' 76 ''Uploading to cloud renderer...'',
      with_status p ''processing'' 82 ''Submitting cloud render...'',
      with_status p ''processing'' 82 ''Submitting cloud render...'',
      with_status p ''processing'' 90 ''Rendering in the cloud...'',
      with_status p ''processing'' 90 ''Rendering in the cloud...'']"



definition fails_on :: "env \<Rightarrow> arg list \<Rightarrow> fs \<Rightarrow> bool" where
  "fails_on e args fs = (case ffmpeg e args fs of Exit0 out written \<Rightarrow> False | _ \<Rightarrow> True)"



text \<open>A trace that is not empty and all of whose states satisfy \<open>P\<close>.\<close>

definition throughout :: "(world \<Rightarrow> bool) \<Rightarrow> trace \<Rightarrow> bool" where
  "throughout P t = (t \<noteq> [] \<and> list_all P t)"

section \<open>Sample inputs\<close>

text \<open>
  A freshly uploaded job, a server configured for local rendering, and a few behaviours
  of the external tool, used to run the definitions on concrete inputs.
\<close>

definition sample_project :: project where
  "sample_project =
     \<lparr>pid = ''p1'', name = ''clip'', status = ''uploaded'', style = ''mrbeast'',
      intensity = ''extreme'', quality = ''1080p'', progress = 0,
      currentStep = ''Uploaded successfully'', thumbnail = None, processedVideo = None,
      originalVideo = ''in.mp4''\<rparr>"

definition sample_world :: world where
  "sample_world =
     \<lparr>projects = [''p1'' \<mapsto> sample_project], history = [],
      files = [''/srv/uploads/in.mp4'' \<mapsto> File [1, 2, 3]]\<rparr>"

definition completed_project :: project where
  "completed_project =
     sample_project\<lparr>status := ''completed'', progress := 100,
       currentStep := ''Processing completed successfully'',
       thumbnail := Some ''thumbnail-p1.jpg'', processedVideo := Some ''processed-p1.mp4''\<rparr>"

definition completed_world :: world where
  "completed_world = sample_world\<lparr>projects := [''p1'' \<mapsto> completed_project]\<rparr>"

definition processing_world :: world where
  "processing_world =
     sample_world\<lparr>projects := [''p1'' \<mapsto> sample_project\<lparr>status := ''processing'', progress := 50,
       currentStep := ''Applying AI editing style...''\<rparr>]\<rparr>"

definition tool_ok :: "arg list \<Rightarrow> fs \<Rightarrow> tool_result" where
  "tool_ok args fs = Exit0 [] (Some [9])"

definition tool_missing :: "arg list \<Rightarrow> fs \<Rightarrow> tool_result" where
  "tool_missing args fs = SpawnError ''spawn ffmpeg ENOENT''"



text \<open>A tool that fails on the final transcode only.\<close>

definition tool_quality_fail :: "arg list \<Rightarrow> fs \<Rightarrow> tool_result" where
  "tool_quality_fail args fs =
     (if A ''+faststart'' \<in> set args
      then ExitNonZero ''Conversion failed!''
      else Exit0 [] (Some [9]))"

definition sample_env :: env where
  "sample_env =
     \<lparr>AI_MODE = None, shotstack_loaded = True,
      uploadsDir = ''/srv/uploads'', projectsDir = ''/srv/projects'', editedDir = ''/srv/edited'',
      ffmpeg = tool_ok, ffprobe = (\<lambda>p fs. ProbeJson True),
      match_silence_start = (\<lambda>s. None), match_silence_end = (\<lambda>s. None),
      cloud = RenderDone (Some ''https://cdn.example/out.mp4'') None\<rparr>"

text \<open>The same server with the tool missing, and configured for the cloud renderer.\<close>

definition broken_env :: env where
  "broken_env = sample_env\<lparr>ffmpeg := tool_missing\<rparr>"

definition cloud_env :: env where
  "cloud_env = sample_env\<lparr>AI_MODE := Some ''shotstack''\<rparr>"

text \<open>The same server with a tool that fails on the final transcode, or on the optional stages.\<close>

definition quality_fail_env :: env where
  "quality_fail_env = sample_env\<lparr>ffmpeg := tool_quality_fail\<rparr>"





section \<open>Properties of the store\<close>

lemma get_updateProjectStatus:
  "getProjectById j (updateProjectStatus st pr step i w) =
     (if j = i
      then map_option (\<lambda>p. p\<lparr>status := st, progress := pr, currentStep := step\<rparr>) (getProjectById i w)
      else getProjectById j w)"
  by (simp add: getProjectById_def updateProjectStatus_def split: option.split)

lemma get_updateProject:
  "getProjectById j (updateProject n sty inten qual thumb processed i w) =
     (if j = i
      then map_option (\<lambda>p. p\<lparr>name := n, style := sty, intensity := inten, quality := qual,
             thumbnail := thumb, processedVideo := processed\<rparr>) (getProjectById i w)
      else getProjectById j w)"
  by (simp add: getProjectById_def updateProject_def split: option.split)

lemma get_addStep: "getProjectById j (addStep a b c d w) = getProjectById j w"
  by (simp add: getProjectById_def addStep_def)

lemma get_files_update: "getProjectById j (w\<lparr>files := f\<rparr>) = getProjectById j w"
  by (simp add: getProjectById_def)

lemma files_updateProjectStatus: "files (updateProjectStatus st pr step i w) = files w"
  by (simp add: updateProjectStatus_def split: option.split)

lemma files_updateProject: "files (updateProject n sty inten qual thumb processed i w) = files w"
  by (simp add: updateProject_def split: option.split)

lemma files_addStep: "files (addStep a b c d w) = files w"
  by (simp add: addStep_def)

lemma history_updateProjectStatus: "history (updateProjectStatus st pr step i w) = history w"
  by (simp add: updateProjectStatus_def split: option.split)

lemma history_updateProject: "history (updateProject n sty inten qual thumb processed i w) = history w"
  by (simp add: updateProject_def split: option.split)

lemmas store_simps =
  get_updateProjectStatus get_updateProject get_addStep get_files_update
  files_updateProjectStatus files_updateProject files_addStep
  history_updateProjectStatus history_updateProject

text \<open>
  C2, as the code has it. The store has no notion of a terminal state: for a job that
  exists, whatever its status (\<^verbatim>\<open>completed\<close> and \<^verbatim>\<open>error\<close> included),
  \<^verbatim>\<open>updateProjectStatus\<close> succeeds and sets status, progress and currentStep to the values
  given, leaving every other column, every other job, the history and the files as they
  were; for an id that no job has it changes nothing and raises nothing.
\<close>

theorem updateProjectStatus_has_no_terminal_guard:
  "(\<forall>p. getProjectById i w = Some p \<longrightarrow>
      updateProjectStatus st pr step i w =
        w\<lparr>projects := (projects w)(i \<mapsto> p\<lparr>status := st, progress := pr, currentStep := step\<rparr>)\<rparr>) \<and>
   (getProjectById i w = None \<longrightarrow> updateProjectStatus st pr step i w = w)"
  by (simp add: getProjectById_def updateProjectStatus_def)

theorem updateProjectStatus_has_no_terminal_guard_witness:
  "getProjectById ''p1'' completed_world = Some completed_project \<and>
   status completed_project = ''completed'' \<and>
   getProjectById ''p1''
     (updateProjectStatus ''processing'' 10 ''Analyzing video content...'' ''p1'' completed_world)
     = Some (completed_project\<lparr>status := ''processing'', progress := 10,
               currentStep := ''Analyzing video content...''\<rparr>) \<and>
   getProjectById ''nope'' completed_world = None \<and>
   updateProjectStatus ''processing'' 10 ''Analyzing video content...'' ''nope'' completed_world
     = completed_world"
  using updateProjectStatus_has_no_terminal_guard
          [of "''p1''" completed_world "''processing''" 10 "''Analyzing video content...''"]
        updateProjectStatus_has_no_terminal_guard
          [of "''nope''" completed_world "''processing''" 10 "''Analyzing video content...''"]
  by (simp add: getProjectById_def completed_world_def sample_world_def completed_project_def
        sample_project_def)

text \<open>
  C2 as the specification states it fails: on a job that is \<^verbatim>\<open>completed\<close> with progress
  100, the first write of a new processing run is accepted and a poll then reads
  progress 0 and a new currentStep.
\<close>

theorem terminal_job_is_overwritten:
  "status completed_project = ''completed'' \<and> progress completed_project = 100 \<and>
   getProjectById ''p1'' completed_world = Some completed_project \<and>
   get_progress ''p1''
     (updateProjectStatus ''processing'' 0 ''Starting AI processing'' ''p1'' completed_world)
     = Some (''processing'', 0, ''Starting AI processing'')"
  by (simp add: get_progress_def getProjectById_def updateProjectStatus_def completed_world_def
        sample_world_def completed_project_def sample_project_def)

section \<open>Properties of the HTTP handlers\<close>

text \<open>
  C10. The start-processing endpoint answers 404 for an id that no job has and 400 for a
  job whose status is \<^verbatim>\<open>processing\<close>; in both cases it makes no write at all (the trace
  is the state it was called in, alone), so no job is created or modified and no second
  pipeline is started.
\<close>

theorem post_process_refusals:
  "(getProjectById i w = None \<longrightarrow>
      post_process e i w = (Response 404 ''Project not found'', [w])) \<and>
   (\<forall>p. getProjectById i w = Some p \<and> status p = ''processing'' \<longrightarrow>
      post_process e i w = (Response 400 ''Project is already processing'', [w]))"
  by (simp add: post_process_def)

theorem post_process_refusals_witness:
  "getProjectById ''nope'' processing_world = None \<and>
   post_process sample_env ''nope'' processing_world
     = (Response 404 ''Project not found'', [processing_world]) \<and>
   (\<exists>p. getProjectById ''p1'' processing_world = Some p \<and> status p = ''processing'') \<and>
   post_process sample_env ''p1'' processing_world
     = (Response 400 ''Project is already processing'', [processing_world])"
  using post_process_refusals [of "''nope''" processing_world sample_env]
        post_process_refusals [of "''p1''" processing_world sample_env]
  by (simp add: getProjectById_def processing_world_def sample_world_def)

section \<open>Properties of a processing run\<close>

subsection \<open>The rows a run leaves\<close>

text \<open>
  The job row after each write of a run of \<^verbatim>\<open>processVideoWithAI\<close>, by the way the run
  ends: the job is missing; the local renderer throws or returns; a Shotstack call
  throws after one, two or three of the cloud progress writes; the cloud render is done.
\<close>

lemma last_commit: "last (commit f t) = f (last t)"
  by (simp add: commit_def)

lemma map_commit: "map g (commit f t) = map g t @ [g (f (last t))]"
  by (simp add: commit_def)

lemma rows_updateProgress:
  "map (getProjectById i) (updateProgress i pr m t) =
     map (getProjectById i) t @
       (let v = map_option (\<lambda>p. with_status p ''processing'' pr m) (getProjectById i (last t))
        in [v, v])"
  by (simp add: updateProgress_def map_commit last_commit store_simps Let_def with_status_def)

lemma row_last_updateProgress:
  "getProjectById i (last (updateProgress i pr m t)) =
     map_option (\<lambda>p. with_status p ''processing'' pr m) (getProjectById i (last t))"
  by (simp add: updateProgress_def last_commit store_simps with_status_def)

lemma files_last_updateProgress: "files (last (updateProgress i pr m t)) = files (last t)"
  by (simp add: updateProgress_def last_commit store_simps)

lemma with_status_twice [simp]:
  "with_status (with_status p a b c) st pr step = with_status p st pr step"
  by (simp add: with_status_def)

lemma rows_catchBlock:
  "getProjectById i (last t) = Some q \<Longrightarrow>
   map (getProjectById i) (catchBlock i m t) =
     map (getProjectById i) t @
       map Some [with_status q ''error'' 0 (''Error: '' @ m), with_status q ''error'' 0 (''Error: '' @ m)]"
  by (simp add: catchBlock_def map_commit last_commit store_simps Let_def with_status_def)

lemma rows_firstSteps:
  "getProjectById i (last t) = Some p \<Longrightarrow>
   map (getProjectById i) (firstSteps i t) = map (getProjectById i) t @ map Some (first_rows p)"
  by (simp add: firstSteps_def Let_def rows_updateProgress row_last_updateProgress
        map_commit last_commit store_simps first_rows_def)
     (simp add: with_status_def)

lemma row_last_firstSteps:
  "getProjectById i (last t) = Some p \<Longrightarrow>
   getProjectById i (last (firstSteps i t)) =
     Some (with_status p ''processing'' 75 ''Processing with AI algorithms...'')"
  by (simp add: firstSteps_def Let_def row_last_updateProgress last_commit store_simps)
     (simp add: with_status_def)

lemma files_last_firstSteps: "files (last (firstSteps i t)) = files (last t)"
  by (simp add: firstSteps_def Let_def files_last_updateProgress last_commit store_simps)

lemma rows_finishProcessing:
  "getProjectById i (last t) = Some q \<Longrightarrow>
   map (getProjectById i) (finishProcessing e p i t) =
     map (getProjectById i) t @ map Some
       ([with_status q ''processing'' 100 ''Finalizing video...'',
         with_status q ''processing'' 100 ''Finalizing video...''] @
        (if mode e \<noteq> ''shotstack''
         then [with_output (with_status q ''processing'' 100 ''Finalizing video...'') p
                 (''thumbnail-'' @ pid p @ ''.jpg'') (''processed-'' @ pid p @ ''.mp4''),
               with_status (with_output q p
                 (''thumbnail-'' @ pid p @ ''.jpg'') (''processed-'' @ pid p @ ''.mp4''))
                 ''completed'' 100 ''Processing completed successfully'']
         else [with_status q ''completed'' 100 ''Processing completed successfully'']))"
  by (simp add: finishProcessing_def Let_def rows_updateProgress row_last_updateProgress
        map_commit last_commit store_simps)
     (simp add: with_status_def with_output_def)

lemma rows_cloudRender_prefix:
  "getProjectById i (last t) = Some q \<Longrightarrow>
   map (getProjectById i)
     (updateProgress i 90 ''Rendering in the cloud...''
       (updateProgress i 82 ''Submitting cloud render...''
         (updateProgress i 76 ''Uploading to cloud renderer...'' t))) =
   map (getProjectById i) t @ map Some (cloud_rows q)"
  by (simp add: rows_updateProgress row_last_updateProgress cloud_rows_def Let_def)

lemma run_cases [case_names missing local_fail local_ok cloud_fail cloud_ok]:
  obtains
    (missing) "getProjectById i w = None" "processVideoWithAI e i [w] = [w]"
  | (local_fail) p m fs' where
      "getProjectById i w = Some p" "\<not> use_shotstack e"
      "processVideo e (path_join (uploadsDir e) (originalVideo p))
         (path_join (projectsDir e) (''processed-'' @ pid p @ ''.mp4''))
         (style p) (intensity p) (quality p) (files w) = (Inl m, fs')"
      "map (getProjectById i) (tl (processVideoWithAI e i [w])) =
         map Some (first_rows p @
           [with_status p ''processing'' 75 ''Processing with AI algorithms...'',
            with_status p ''error'' 0 (''Error: '' @ m),
            with_status p ''error'' 0 (''Error: '' @ m)])"
  | (local_ok) p ok fs' where
      "getProjectById i w = Some p" "\<not> use_shotstack e"
      "processVideo e (path_join (uploadsDir e) (originalVideo p))
         (path_join (projectsDir e) (''processed-'' @ pid p @ ''.mp4''))
         (style p) (intensity p) (quality p) (files w) = (Inr ok, fs')"
      "map (getProjectById i) (tl (processVideoWithAI e i [w])) =
         map Some (first_rows p @
           [with_status p ''processing'' 75 ''Processing with AI algorithms...'',
            with_status p ''processing'' 100 ''Finalizing video...'',
            with_status p ''processing'' 100 ''Finalizing video...''] @
           (if mode e \<noteq> ''shotstack''
            then [with_output (with_status p ''processing'' 100 ''Finalizing video...'') p
                    (''thumbnail-'' @ pid p @ ''.jpg'') (''processed-'' @ pid p @ ''.mp4''),
                  with_status (with_output p p
                    (''thumbnail-'' @ pid p @ ''.jpg'') (''processed-'' @ pid p @ ''.mp4''))
                    ''completed'' 100 ''Processing completed successfully'']
            else [with_status p ''completed'' 100 ''Processing completed successfully'']))"
  | (cloud_fail) p m k where
      "getProjectById i w = Some p" "use_shotstack e"
      "k = 2 \<or> k = 4 \<or> k = 6"
      "map (getProjectById i) (tl (processVideoWithAI e i [w])) =
         map Some (first_rows p @ take k (cloud_rows p) @
           [with_status p ''error'' 0 (''Error: '' @ m),
            with_status p ''error'' 0 (''Error: '' @ m)])"
      "\<forall>url d. url \<noteq> [] \<longrightarrow> cloud e \<noteq> RenderDone (Some url) d"
  | (cloud_ok) p url downloaded processed extra where
      "getProjectById i w = Some p" "use_shotstack e"
      "cloud e = RenderDone (Some url) downloaded" "url \<noteq> []"
      "extra = (if downloaded = None then [] else [with_status p ''processing'' 90 ''Rendering in the cloud...''])"
      "map (getProjectById i) (tl (processVideoWithAI e i [w])) =
         map Some (first_rows p @ cloud_rows p @ extra @
           [with_output (with_status p ''processing'' 90 ''Rendering in the cloud...'') p
              (text_or (thumbnail p) ''demo-thumbnail.jpg'') processed,
            with_output (with_status p ''processing'' 100 ''Finalizing video...'') p
              (text_or (thumbnail p) ''demo-thumbnail.jpg'') processed,
            with_output (with_status p ''processing'' 100 ''Finalizing video...'') p
              (text_or (thumbnail p) ''demo-thumbnail.jpg'') processed,
            with_output (with_status p ''completed'' 100 ''Processing completed successfully'') p
              (text_or (thumbnail p) ''demo-thumbnail.jpg'') processed])"
proof (cases "getProjectById i w")
  case None
  then show ?thesis using missing by (simp add: processVideoWithAI_def)
next
  case (Some p)
  note job = Some
  have last75: "getProjectById i (last (firstSteps i [w])) =
      Some (with_status p ''processing'' 75 ''Processing with AI algorithms...'')"
    using job by (simp add: row_last_firstSteps)
  have first: "map (getProjectById i) (firstSteps i [w]) = Some p # map Some (first_rows p)"
    using job by (simp add: rows_firstSteps)
  show ?thesis
  proof (cases "use_shotstack e")
    case False
    obtain r fs' where pv: "processVideo e (path_join (uploadsDir e) (originalVideo p))
         (path_join (projectsDir e) (''processed-'' @ pid p @ ''.mp4''))
         (style p) (intensity p) (quality p) (files w) = (r, fs')"
      by (cases "processVideo e (path_join (uploadsDir e) (originalVideo p))
         (path_join (projectsDir e) (''processed-'' @ pid p @ ''.mp4''))
         (style p) (intensity p) (quality p) (files w)") auto
    show ?thesis
    proof (cases r)
      case (Inl m)
      have "map (getProjectById i) (tl (processVideoWithAI e i [w])) =
         map Some (first_rows p @
           [with_status p ''processing'' 75 ''Processing with AI algorithms...'',
            with_status p ''error'' 0 (''Error: '' @ m),
            with_status p ''error'' 0 (''Error: '' @ m)])"
        using job False pv Inl last75 first
        by (simp add: processVideoWithAI_def Let_def files_last_firstSteps rows_catchBlock
              map_commit last_commit store_simps map_tl)
      then show ?thesis using local_fail job False pv Inl by blast
    next
      case (Inr ok)
      have "map (getProjectById i) (tl (processVideoWithAI e i [w])) =
         map Some (first_rows p @
           [with_status p ''processing'' 75 ''Processing with AI algorithms...'',
            with_status p ''processing'' 100 ''Finalizing video...'',
            with_status p ''processing'' 100 ''Finalizing video...''] @
           (if mode e \<noteq> ''shotstack''
            then [with_output (with_status p ''processing'' 100 ''Finalizing video...'') p
                    (''thumbnail-'' @ pid p @ ''.jpg'') (''processed-'' @ pid p @ ''.mp4''),
                  with_status (with_output p p
                    (''thumbnail-'' @ pid p @ ''.jpg'') (''processed-'' @ pid p @ ''.mp4''))
                    ''completed'' 100 ''Processing completed successfully'']
            else [with_status p ''completed'' 100 ''Processing completed successfully'']))"
        using job False pv Inr last75 first
        apply (simp add: processVideoWithAI_def Let_def files_last_firstSteps rows_finishProcessing
              map_commit last_commit store_simps map_tl)
        apply (simp add: with_status_def with_output_def)
        done
      then show ?thesis using local_ok job False pv Inr by blast
    qed
  next
    case True
    have r76: "getProjectById i (last (updateProgress i 76 ''Uploading to cloud renderer...'' (firstSteps i [w])))
        = Some (with_status p ''processing'' 76 ''Uploading to cloud renderer...'')"
      using last75 by (simp add: row_last_updateProgress)
    have r82: "getProjectById i (last (updateProgress i 82 ''Submitting cloud render...''
        (updateProgress i 76 ''Uploading to cloud renderer...'' (firstSteps i [w]))))
        = Some (with_status p ''processing'' 82 ''Submitting cloud render...'')"
      using last75 by (simp add: row_last_updateProgress)
    have r90: "getProjectById i (last (updateProgress i 90 ''Rendering in the cloud...''
        (updateProgress i 82 ''Submitting cloud render...''
        (updateProgress i 76 ''Uploading to cloud renderer...'' (firstSteps i [w])))))
        = Some (with_status p ''processing'' 90 ''Rendering in the cloud...'')"
      using last75 by (simp add: row_last_updateProgress)
    have fail: thesis
      if "cloudRender e p i (firstSteps i [w]) =
            catchBlock i m (updateProgress i 76 ''Uploading to cloud renderer...'' (firstSteps i [w])) \<or>
          cloudRender e p i (firstSteps i [w]) =
            catchBlock i m (updateProgress i 82 ''Submitting cloud render...''
              (updateProgress i 76 ''Uploading to cloud renderer...'' (firstSteps i [w]))) \<or>
          cloudRender e p i (firstSteps i [w]) =
            catchBlock i m (updateProgress i 90 ''Rendering in the cloud...''
              (updateProgress i 82 ''Submitting cloud render...''
              (updateProgress i 76 ''Uploading to cloud renderer...'' (firstSteps i [w]))))"
        and nd: "\<forall>url d. url \<noteq> [] \<longrightarrow> cloud e \<noteq> RenderDone (Some url) d" for m
    proof -
      have run: "processVideoWithAI e i [w] = cloudRender e p i (firstSteps i [w])"
        using job True by (simp add: processVideoWithAI_def Let_def)
      from that(1) consider
          (a) "cloudRender e p i (firstSteps i [w]) =
            catchBlock i m (updateProgress i 76 ''Uploading to cloud renderer...'' (firstSteps i [w]))"
        | (b) "cloudRender e p i (firstSteps i [w]) =
            catchBlock i m (updateProgress i 82 ''Submitting cloud render...''
              (updateProgress i 76 ''Uploading to cloud renderer...'' (firstSteps i [w])))"
        | (c) "cloudRender e p i (firstSteps i [w]) =
            catchBlock i m (updateProgress i 90 ''Rendering in the cloud...''
              (updateProgress i 82 ''Submitting cloud render...''
              (updateProgress i 76 ''Uploading to cloud renderer...'' (firstSteps i [w]))))"
        by blast
      then show thesis
      proof cases
        case a
        have "map (getProjectById i) (tl (processVideoWithAI e i [w])) =
           map Some (first_rows p @ take 2 (cloud_rows p) @
             [with_status p ''error'' 0 (''Error: '' @ m), with_status p ''error'' 0 (''Error: '' @ m)])"
          using r76 first last75
          by (simp add: run a map_tl rows_catchBlock rows_updateProgress cloud_rows_def Let_def)
        then show thesis using cloud_fail [of p 2 m] job True nd by simp
      next
        case b
        have "map (getProjectById i) (tl (processVideoWithAI e i [w])) =
           map Some (first_rows p @ take 4 (cloud_rows p) @
             [with_status p ''error'' 0 (''Error: '' @ m), with_status p ''error'' 0 (''Error: '' @ m)])"
          using r76 r82 first last75
          by (simp add: run b map_tl rows_catchBlock rows_updateProgress cloud_rows_def Let_def)
        then show thesis using cloud_fail [of p 4 m] job True nd by simp
      next
        case c
        have "map (getProjectById i) (tl (processVideoWithAI e i [w])) =
           map Some (first_rows p @ take 6 (cloud_rows p) @
             [with_status p ''error'' 0 (''Error: '' @ m), with_status p ''error'' 0 (''Error: '' @ m)])"
          using r76 r82 r90 first last75
          by (simp add: run c map_tl rows_catchBlock rows_updateProgress cloud_rows_def Let_def)
        then show thesis using cloud_fail [of p 6 m] job True nd by simp
      qed
    qed
    show ?thesis
    proof (cases "cloud e")
      case (UploadThrows m)
      then show ?thesis by (intro fail [of m]) (simp_all add: cloudRender_def Let_def)
    next
      case (SubmitThrows m)
      then show ?thesis by (intro fail [of m]) (simp_all add: cloudRender_def Let_def)
    next
      case (PollThrows m)
      then show ?thesis by (intro fail [of m]) (simp_all add: cloudRender_def Let_def)
    next
      case (RenderUnsuccessful st)
      then show ?thesis
        by (intro fail [of "''Cloud render failed: '' @ (if st = [] then ''unknown'' else st)"])
           (simp_all add: cloudRender_def Let_def)
    next
      case (RenderDone url downloaded)
      show ?thesis
      proof (cases "text_or url [] = []")
        case True
        with RenderDone show ?thesis
          by (intro fail [of "''Cloud render failed: done''"])
             (auto simp: cloudRender_def Let_def text_or_def)
      next
        case False
        then obtain u where u: "url = Some u" "u \<noteq> []"
          by (cases url) (auto simp: text_or_def split: if_splits)
        define processed where
          "processed = (case downloaded of Some bytes \<Rightarrow> ''edited-'' @ pid p @ ''.mp4'' | None \<Rightarrow> u)"
        have run: "processVideoWithAI e i [w] = cloudRender e p i (firstSteps i [w])"
          using job \<open>use_shotstack e\<close> by (simp add: processVideoWithAI_def Let_def)
        have shot: "mode e = ''shotstack''"
          using \<open>use_shotstack e\<close> by (simp add: use_shotstack_def)
        have "map (getProjectById i) (tl (processVideoWithAI e i [w])) =
         map Some (first_rows p @ cloud_rows p @
           (if downloaded = None then [] else [with_status p ''processing'' 90 ''Rendering in the cloud...'']) @
           [with_output (with_status p ''processing'' 90 ''Rendering in the cloud...'') p
              (text_or (thumbnail p) ''demo-thumbnail.jpg'') processed,
            with_output (with_status p ''processing'' 100 ''Finalizing video...'') p
              (text_or (thumbnail p) ''demo-thumbnail.jpg'') processed,
            with_output (with_status p ''processing'' 100 ''Finalizing video...'') p
              (text_or (thumbnail p) ''demo-thumbnail.jpg'') processed,
            with_output (with_status p ''completed'' 100 ''Processing completed successfully'') p
              (text_or (thumbnail p) ''demo-thumbnail.jpg'') processed])"
          using r90 first last75 RenderDone u shot
          apply (cases downloaded)
           apply (simp_all add: run cloudRender_def Let_def map_tl rows_finishProcessing
              rows_cloudRender_prefix map_commit last_commit store_simps processed_def text_or_def)
           apply (simp_all add: with_status_def with_output_def cloud_rows_def)
          done
        then show ?thesis
          using cloud_ok [of p u downloaded _ processed] job \<open>use_shotstack e\<close> RenderDone u by simp
      qed
    qed
  qed
qed

lemma polls_by_rows:
  "polls i t = List.map_filter (map_option (\<lambda>p. (status p, progress p, currentStep p)))
                 (map (getProjectById i) t)"
  by (induction t) (simp_all add: polls_def map_filter_simps get_progress_def split: option.split)

lemma polls_of_rows:
  assumes "map (getProjectById i) t = map Some rows"
  shows "polls i t = map (\<lambda>p. (status p, progress p, currentStep p)) rows"
  unfolding polls_by_rows assms by (induction rows) (simp_all add: map_filter_simps)

lemma list_all_of_rows:
  assumes "map (getProjectById i) t = map Some rows"
  shows "list_all (\<lambda>s. Q (getProjectById i s)) t = list_all (\<lambda>p. Q (Some p)) rows"
proof -
  have "list_all (\<lambda>s. Q (getProjectById i s)) t = list_all Q (map (getProjectById i) t)"
    by (simp add: list.pred_map comp_def)
  then show ?thesis unfolding assms by (simp add: list.pred_map comp_def)
qed

lemma processVideo_tool_missing:
  "ffmpeg e = tool_missing \<Longrightarrow>
   processVideo e inputPath outputPath sty inten qual fs = (Inl ''FFmpeg not available'', fs)"
  by (simp add: processVideo_def checkFFmpeg_def runCommand_def tool_missing_def versionArgs_def)

lemma view_simps [simp]:
  "status (with_status p st pr step) = st"
  "progress (with_status p st pr step) = pr"
  "currentStep (with_status p st pr step) = step"
  "processedVideo (with_status p st pr step) = processedVideo p"
  "status (with_output q p thumb processed) = status q"
  "progress (with_output q p thumb processed) = progress q"
  "currentStep (with_output q p thumb processed) = currentStep q"
  "processedVideo (with_output q p thumb processed) = Some processed"
  by (simp_all add: with_status_def with_output_def)

text \<open>The two local outcomes, as equations.\<close>

lemma rows_local_fail:
  assumes "getProjectById i w = Some p" "\<not> use_shotstack e"
    and "processVideo e (path_join (uploadsDir e) (originalVideo p))
         (path_join (projectsDir e) (''processed-'' @ pid p @ ''.mp4''))
         (style p) (intensity p) (quality p) (files w) = (Inl m, fs')"
  shows "map (getProjectById i) (tl (processVideoWithAI e i [w])) =
         map Some (first_rows p @
           [with_status p ''processing'' 75 ''Processing with AI algorithms...'',
            with_status p ''error'' 0 (''Error: '' @ m),
            with_status p ''error'' 0 (''Error: '' @ m)])"
  by (cases rule: run_cases [of i w e]) (use assms in auto)

lemma rows_local_ok:
  assumes "getProjectById i w = Some p" "\<not> use_shotstack e" "mode e \<noteq> ''shotstack''"
    and "processVideo e (path_join (uploadsDir e) (originalVideo p))
         (path_join (projectsDir e) (''processed-'' @ pid p @ ''.mp4''))
         (style p) (intensity p) (quality p) (files w) = (Inr ok, fs')"
  shows "map (getProjectById i) (tl (processVideoWithAI e i [w])) =
         map Some (first_rows p @
           [with_status p ''processing'' 75 ''Processing with AI algorithms...'',
            with_status p ''processing'' 100 ''Finalizing video...'',
            with_status p ''processing'' 100 ''Finalizing video...'',
            with_output (with_status p ''processing'' 100 ''Finalizing video...'') p
                    (''thumbnail-'' @ pid p @ ''.jpg'') (''processed-'' @ pid p @ ''.mp4''),
            with_status (with_output p p
                    (''thumbnail-'' @ pid p @ ''.jpg'') (''processed-'' @ pid p @ ''.mp4''))
                    ''completed'' 100 ''Processing completed successfully''])"
  by (cases rule: run_cases [of i w e]) (use assms in auto)

lemma sample_facts:
  "getProjectById ''p1'' sample_world = Some sample_project"
  "\<not> use_shotstack sample_env" "mode sample_env \<noteq> ''shotstack''"
  "\<not> use_shotstack broken_env" "mode broken_env \<noteq> ''shotstack''"
  "use_shotstack cloud_env"
  by (simp_all add: getProjectById_def sample_world_def use_shotstack_def mode_def sample_env_def
        broken_env_def cloud_env_def)


subsection \<open>Progress as a poller sees it\<close>




subsection \<open>Errors reset the progress\<close>

lemma commit_not_Nil: "commit f t \<noteq> []"
  by (simp add: commit_def)

lemma throughout_commit:
  "throughout P t \<Longrightarrow> (\<And>s. P s \<Longrightarrow> P (f s)) \<Longrightarrow> throughout P (commit f t)"
  by (auto simp: throughout_def commit_def list_all_iff)

lemma throughout_single: "throughout P [w] = P w"
  by (simp add: throughout_def)

lemma ez_status:
  "(st = ''error'' \<longrightarrow> pr = 0) \<Longrightarrow> error_has_zero_progress j w \<Longrightarrow>
   error_has_zero_progress j (updateProjectStatus st pr step i w)"
  by (auto simp: error_has_zero_progress_def store_simps split: option.splits)

lemma ez_project:
  "error_has_zero_progress j w \<Longrightarrow>
   error_has_zero_progress j (updateProject n sty inten qual thumb processed i w)"
  by (auto simp: error_has_zero_progress_def store_simps split: option.splits)

lemma ez_addStep: "error_has_zero_progress j w \<Longrightarrow> error_has_zero_progress j (addStep a b c d w)"
  by (simp add: error_has_zero_progress_def store_simps)

lemma ez_files: "error_has_zero_progress j w \<Longrightarrow> error_has_zero_progress j (w\<lparr>files := f\<rparr>)"
  by (simp add: error_has_zero_progress_def store_simps)

lemmas ez_intros = throughout_commit ez_status ez_project ez_addStep ez_files

lemma ez_updateProgress:
  "throughout (error_has_zero_progress j) t \<Longrightarrow>
   throughout (error_has_zero_progress j) (updateProgress i pr m t)"
  unfolding updateProgress_def by (intro ez_intros) simp_all

lemma ez_catchBlock:
  "throughout (error_has_zero_progress j) t \<Longrightarrow>
   throughout (error_has_zero_progress j) (catchBlock i m t)"
  unfolding catchBlock_def by (intro ez_intros) simp_all

lemma ez_firstSteps:
  "throughout (error_has_zero_progress j) t \<Longrightarrow>
   throughout (error_has_zero_progress j) (firstSteps i t)"
  unfolding firstSteps_def Let_def by (intro ez_intros ez_updateProgress) simp_all

lemma ez_finishProcessing:
  "throughout (error_has_zero_progress j) t \<Longrightarrow>
   throughout (error_has_zero_progress j) (finishProcessing e p i t)"
  unfolding finishProcessing_def Let_def
  by (auto intro!: ez_intros ez_updateProgress)

lemma ez_cloudRender:
  "throughout (error_has_zero_progress j) t \<Longrightarrow>
   throughout (error_has_zero_progress j) (cloudRender e p i t)"
  unfolding cloudRender_def Let_def
  by (auto intro!: ez_intros ez_updateProgress ez_catchBlock ez_finishProcessing
        split: cloud_result.splits option.splits)

lemma ez_processVideoWithAI:
  "throughout (error_has_zero_progress j) t \<Longrightarrow>
   throughout (error_has_zero_progress j) (processVideoWithAI e i t)"
  unfolding processVideoWithAI_def Let_def
  by (auto intro!: ez_intros ez_firstSteps ez_catchBlock ez_finishProcessing ez_cloudRender
        split: option.splits prod.splits sum.splits)

lemma ez_processVideoWithAI_legacy:
  "throughout (error_has_zero_progress j) t \<Longrightarrow>
   throughout (error_has_zero_progress j) (processVideoWithAI_legacy e i t)"
  unfolding processVideoWithAI_legacy_def Let_def
  by (auto intro!: ez_intros ez_firstSteps ez_updateProgress ez_catchBlock
        split: option.splits prod.splits sum.splits)

lemma ez_render_webhook:
  "error_has_zero_progress j w \<Longrightarrow>
   throughout (error_has_zero_progress j) (snd (render_webhook r w))"
  unfolding render_webhook_def Let_def
  by (auto intro!: ez_intros simp: throughout_single split: option.splits)

lemma poll_after_catchBlock:
  "getProjectById i (last t) = Some p \<Longrightarrow>
   get_progress i (last (catchBlock i m t)) = Some (''error'', 0, ''Error: '' @ m)"
  by (simp add: catchBlock_def last_commit store_simps get_progress_def)

lemma poll_after_webhook_failure:
  "getProjectById i w = Some p \<Longrightarrow> i \<noteq> [] \<Longrightarrow>
   st \<in> {''failed'', ''error'', ''cancelled''} \<Longrightarrow>
   get_progress i (last (snd (render_webhook
       \<lparr>hook_status = Some st, hook_outputUrl = url, hook_projectId = Some i\<rparr> w)))
     = Some (''error'', 0, ''Render failed ('' @ st @ '')'')"
  by (auto simp: render_webhook_def text_or_def last_commit store_simps get_progress_def)

text \<open>
  C9. Every write that sets status \<^verbatim>\<open>error\<close> in \<^verbatim>\<open>processVideoWithAI\<close> (both server
  files) and in the render webhook sets progress to 0 in the same statement. So a job that
  has progress 0 whenever its status is \<^verbatim>\<open>error\<close> keeps that property in every state of
  a run and of a webhook call; and whatever progress the job had reported, the poll that
  follows the error handler, or a webhook call with status failed, error or cancelled,
  reads status \<^verbatim>\<open>error\<close> with progress 0.
\<close>

theorem error_status_resets_progress:
  assumes "error_has_zero_progress j w"
  shows "list_all (error_has_zero_progress j) (processVideoWithAI e i [w]) \<and>
         list_all (error_has_zero_progress j) (processVideoWithAI_legacy e i [w]) \<and>
         list_all (error_has_zero_progress j) (snd (render_webhook r w)) \<and>
         (\<forall>t p m. getProjectById i (last t) = Some p \<longrightarrow>
            get_progress i (last (catchBlock i m t)) = Some (''error'', 0, ''Error: '' @ m)) \<and>
         (\<forall>p st url. getProjectById i w = Some p \<and> i \<noteq> [] \<and>
            st \<in> {''failed'', ''error'', ''cancelled''} \<longrightarrow>
            get_progress i (last (snd (render_webhook
                \<lparr>hook_status = Some st, hook_outputUrl = url, hook_projectId = Some i\<rparr> w)))
              = Some (''error'', 0, ''Render failed ('' @ st @ '')''))"
proof -
  have t0: "throughout (error_has_zero_progress j) [w]"
    using assms by (simp add: throughout_single)
  show ?thesis
    using ez_processVideoWithAI [OF t0, of e i] ez_processVideoWithAI_legacy [OF t0, of e i]
      ez_render_webhook [OF assms, of r] poll_after_catchBlock poll_after_webhook_failure
    unfolding throughout_def by blast
qed

theorem error_status_resets_progress_witness:
  "error_has_zero_progress ''p1'' sample_world \<and>
   list_all (error_has_zero_progress ''p1'') (processVideoWithAI broken_env ''p1'' [sample_world]) \<and>
   get_progress ''p1'' (processVideoWithAI broken_env ''p1'' [sample_world] ! 10)
     = Some (''processing'', 75, ''Processing with AI algorithms...'') \<and>
   get_progress ''p1'' (last (processVideoWithAI broken_env ''p1'' [sample_world]))
     = Some (''error'', 0, ''Error: FFmpeg not available'') \<and>
   get_progress ''p1'' (last (snd (render_webhook
       \<lparr>hook_status = Some ''failed'', hook_outputUrl = None, hook_projectId = Some ''p1''\<rparr>
       processing_world)))
     = Some (''error'', 0, ''Render failed (failed)'')"
proof -
  have ez: "error_has_zero_progress ''p1'' sample_world"
    by (simp add: error_has_zero_progress_def getProjectById_def sample_world_def sample_project_def)
  have ezp: "error_has_zero_progress ''p1'' processing_world"
    by (simp add: error_has_zero_progress_def getProjectById_def sample_world_def processing_world_def)
  have tm: "ffmpeg broken_env = tool_missing"
    by (simp add: broken_env_def sample_env_def)
  have run: "processVideoWithAI broken_env ''p1'' [sample_world] =
      catchBlock ''p1'' ''FFmpeg not available''
        (commit (\<lambda>w. w\<lparr>files := files sample_world\<rparr>) (firstSteps ''p1'' [sample_world]))"
    by (simp add: processVideoWithAI_def sample_facts Let_def processVideo_tool_missing [OF tm]
          files_last_firstSteps)
  have rows: "map (get_progress ''p1'') (processVideoWithAI broken_env ''p1'' [sample_world]) ! 10
      = Some (''processing'', 75, ''Processing with AI algorithms...'')"
    unfolding run
    by (simp add: catchBlock_def firstSteps_def updateProgress_def commit_def Let_def
          store_simps get_progress_def sample_facts)
  have len: "length (processVideoWithAI broken_env ''p1'' [sample_world]) = 13"
    unfolding run
    by (simp add: catchBlock_def firstSteps_def updateProgress_def commit_def Let_def)
  have l: "getProjectById ''p1'' (last (commit (\<lambda>w. w\<lparr>files := files sample_world\<rparr>)
                (firstSteps ''p1'' [sample_world]))) \<noteq> None"
    by (simp add: last_commit store_simps row_last_firstSteps sample_facts)
  have pw: "getProjectById ''p1'' processing_world \<noteq> None"
    by (simp add: getProjectById_def processing_world_def)
  show ?thesis
    using error_status_resets_progress [OF ez, of broken_env "''p1''"]
      error_status_resets_progress [OF ezp, of broken_env "''p1''"]
      rows len l pw ez
    by (auto simp: run)
qed

subsection \<open>Completed jobs\<close>

lemma get_createDemoVideo: "getProjectById j (createDemoVideo e w) = getProjectById j w"
  by (simp add: createDemoVideo_def getProjectById_def Let_def)

lemma get_createDemoThumbnail: "getProjectById j (createDemoThumbnail e w) = getProjectById j w"
  by (simp add: createDemoThumbnail_def getProjectById_def Let_def)

lemma rows_simulateAIProcessing:
  assumes "getProjectById i w = Some p"
  shows "map (getProjectById i) (tl (simulateAIProcessing e i [w])) = map Some
     [with_status p ''processing'' 0 ''Starting simulation processing'',
      with_status p ''processing'' 20 ''Analyzing video content'',
      with_status p ''processing'' 40 ''Detecting scenes and cuts'',
      with_status p ''processing'' 60 ''Applying style effects'',
      with_status p ''processing'' 80 ''Color grading and enhancement'',
      with_status p ''processing'' 100 ''Final rendering'',
      with_status p ''completed'' 100 ''Simulation processing completed'',
      with_output (with_status p ''completed'' 100 ''Simulation processing completed'') p
        ''demo-thumbnail.jpg'' ''demo-video.mp4'',
      with_output (with_status p ''completed'' 100 ''Simulation processing completed'') p
        ''demo-thumbnail.jpg'' ''demo-video.mp4'',
      with_output (with_status p ''completed'' 100 ''Simulation processing completed'') p
        ''demo-thumbnail.jpg'' ''demo-video.mp4'',
      with_output (with_status p ''completed'' 100 ''Simulation processing completed'') p
        ''demo-thumbnail.jpg'' ''demo-video.mp4'']"
  using assms
  by (simp add: simulateAIProcessing_def Let_def processingSteps_def map_commit last_commit
        store_simps get_createDemoVideo get_createDemoThumbnail map_tl with_status_def
        with_output_def)

lemma simulateAIProcessing_missing:
  "getProjectById i w = None \<Longrightarrow> simulateAIProcessing e i [w] = [w]"
  by (simp add: simulateAIProcessing_def)

lemma completed_is_full_alt:
  "completed_is_full i = (\<lambda>s. (case getProjectById i s of None \<Rightarrow> True
      | Some p \<Rightarrow> status p = ''completed'' \<longrightarrow> progress p = 100))"
  by (rule ext) (simp add: completed_is_full_def)

lemma completed_has_output_alt:
  "completed_has_output i = (\<lambda>s. (case getProjectById i s of None \<Rightarrow> True
      | Some p \<Rightarrow> status p = ''completed'' \<longrightarrow> processedVideo p \<noteq> None))"
  by (rule ext) (simp add: completed_has_output_def)

lemma full_run: "list_all (completed_is_full i) (tl (processVideoWithAI e i [w]))"
proof (cases rule: run_cases [of i w e])
  case missing
  then show ?thesis by simp
next
  case (local_fail q m fs')
  show ?thesis unfolding completed_is_full_alt list_all_of_rows [OF local_fail(4)]
    by (simp add: first_rows_def)
next
  case (local_ok q ok fs')
  show ?thesis unfolding completed_is_full_alt list_all_of_rows [OF local_ok(4)]
    by (simp add: first_rows_def)
next
  case (cloud_fail q m k)
  show ?thesis unfolding completed_is_full_alt list_all_of_rows [OF cloud_fail(4)]
    using cloud_fail(3) by (elim disjE) (simp_all add: first_rows_def cloud_rows_def)
next
  case (cloud_ok q url downloaded processed extra)
  show ?thesis unfolding completed_is_full_alt list_all_of_rows [OF cloud_ok(6)]
    using cloud_ok(5) by (simp add: first_rows_def cloud_rows_def)
qed

lemma output_run:
  assumes "mode e = ''shotstack'' \<longrightarrow> shotstack_loaded e"
  shows "list_all (completed_has_output i) (tl (processVideoWithAI e i [w]))"
proof (cases rule: run_cases [of i w e])
  case missing
  then show ?thesis by simp
next
  case (local_fail q m fs')
  show ?thesis unfolding completed_has_output_alt list_all_of_rows [OF local_fail(4)]
    by (simp add: first_rows_def)
next
  case (local_ok q ok fs')
  with assms have "mode e \<noteq> ''shotstack''" by (auto simp: use_shotstack_def)
  then show ?thesis unfolding completed_has_output_alt list_all_of_rows [OF local_ok(4)]
    by (simp add: first_rows_def)
next
  case (cloud_fail q m k)
  show ?thesis unfolding completed_has_output_alt list_all_of_rows [OF cloud_fail(4)]
    using cloud_fail(3) by (elim disjE) (simp_all add: first_rows_def cloud_rows_def)
next
  case (cloud_ok q url downloaded processed extra)
  show ?thesis unfolding completed_has_output_alt list_all_of_rows [OF cloud_ok(6)]
    using cloud_ok(5) by (simp add: first_rows_def cloud_rows_def)
qed

lemma full_simulation: "list_all (completed_is_full i) (tl (simulateAIProcessing e i [w]))"
proof (cases "getProjectById i w")
  case None
  then show ?thesis by (simp add: simulateAIProcessing_missing)
next
  case (Some p)
  show ?thesis unfolding completed_is_full_alt list_all_of_rows [OF rows_simulateAIProcessing [OF Some]]
    by simp
qed

lemma last_simulation:
  assumes "getProjectById i w = Some p"
  shows "getProjectById i (last (simulateAIProcessing e i [w])) =
     Some (with_output (with_status p ''completed'' 100 ''Simulation processing completed'') p
        ''demo-thumbnail.jpg'' ''demo-video.mp4'')"
  using assms
  by (simp add: simulateAIProcessing_def Let_def processingSteps_def last_commit
        store_simps get_createDemoVideo get_createDemoThumbnail with_status_def with_output_def)

lemma nth_of_rows:
  assumes "map (getProjectById i) t = map Some rows" "n < length rows"
  shows "getProjectById i (t ! n) = Some (rows ! n)"
proof -
  have len: "length t = length rows" using assms(1) by (metis length_map)
  have "map (getProjectById i) t ! n = map Some rows ! n" using assms(1) by simp
  then show ?thesis using assms(2) len by simp
qed

lemma last_of_rows:
  assumes "map (getProjectById i) t = map Some rows" "rows \<noteq> []"
  shows "getProjectById i (last t) = Some (last rows)"
proof -
  have "t \<noteq> []" using assms by auto
  then have "getProjectById i (last t) = last (map (getProjectById i) t)" by (simp add: last_map)
  also have "\<dots> = Some (last rows)" unfolding assms(1) using assms(2) by (simp add: last_map)
  finally show ?thesis .
qed

lemmas processor_defs = versionArgs_def extractAudioArgs_def silenceDetectArgs_def styleArgs_def
  jumpCutArgs_def captionArgs_def qualityArgs_def processVideo_def checkFFmpeg_def runCommand_def
  getVideoInfo_def andThen_def dirname_def path_join_def ensureDir_def
  applyStyle_def applyJumpCuts_def detectScenes_def parse_scenes_def output_path_def
  Spec2Isabelle.remove_def below_def addCaptions_def optimizeQuality_def js_or_def js_get_def
  qualitySettings_def copy_def Let_def

lemma sample_paths:
  "path_join (uploadsDir sample_env) (originalVideo sample_project) = ''/srv/uploads/in.mp4''"
  "path_join (projectsDir sample_env) (''processed-'' @ pid sample_project @ ''.mp4'')
     = ''/srv/projects/processed-p1.mp4''"
  "style sample_project = ''mrbeast''" "intensity sample_project = ''extreme''"
  "quality sample_project = ''1080p''"
  by (simp_all add: path_join_def sample_env_def sample_project_def)

lemma sample_processVideo:
  "fst (processVideo sample_env ''/srv/uploads/in.mp4'' ''/srv/projects/processed-p1.mp4''
     ''mrbeast'' ''extreme'' ''1080p'' (files sample_world)) = Inr True"
  by (simp add: processor_defs sample_env_def tool_ok_def sample_world_def)

lemma sample_run_rows:
  "map (getProjectById ''p1'') (tl (processVideoWithAI sample_env ''p1'' [sample_world])) =
     map Some (first_rows sample_project @
       [with_status sample_project ''processing'' 75 ''Processing with AI algorithms...'',
        with_status sample_project ''processing'' 100 ''Finalizing video...'',
        with_status sample_project ''processing'' 100 ''Finalizing video...'',
        with_output (with_status sample_project ''processing'' 100 ''Finalizing video...'')
          sample_project ''thumbnail-p1.jpg'' ''processed-p1.mp4'',
        with_status (with_output sample_project sample_project
          ''thumbnail-p1.jpg'' ''processed-p1.mp4'')
          ''completed'' 100 ''Processing completed successfully''])"
proof -
  obtain fs' where "processVideo sample_env ''/srv/uploads/in.mp4''
      ''/srv/projects/processed-p1.mp4'' ''mrbeast'' ''extreme'' ''1080p'' (files sample_world)
      = (Inr True, fs')"
    using sample_processVideo by (metis prod.collapse)
  then have pv: "processVideo sample_env
      (path_join (uploadsDir sample_env) (originalVideo sample_project))
      (path_join (projectsDir sample_env) (''processed-'' @ pid sample_project @ ''.mp4''))
      (style sample_project) (intensity sample_project) (quality sample_project)
      (files sample_world) = (Inr True, fs')"
    unfolding sample_paths .
  have "pid sample_project = ''p1''" by (simp add: sample_project_def)
  with rows_local_ok [OF sample_facts(1) sample_facts(2) sample_facts(3) pv]
  show ?thesis by simp
qed

text \<open>
  C3, as the code has it. In every state that follows a write of \<^verbatim>\<open>processVideoWithAI\<close>
  or of \<^verbatim>\<open>simulateAIProcessing\<close>, a job with status \<^verbatim>\<open>completed\<close> has progress 100. In a
  run of \<^verbatim>\<open>processVideoWithAI\<close> that renders with the renderer its mode names, a job with
  status \<^verbatim>\<open>completed\<close> also has its processedVideo set; \<^verbatim>\<open>simulateAIProcessing\<close> sets it in
  the write right after the one that writes \<^verbatim>\<open>completed\<close>, so the run ends with status
  \<^verbatim>\<open>completed\<close>, progress 100 and the demo video as output. Only these implications
  hold, not their converses.
\<close>

theorem completed_rows_are_full_and_have_output:
  "list_all (completed_is_full i) (tl (processVideoWithAI e i [w])) \<and>
   list_all (completed_is_full i) (tl (simulateAIProcessing e i [w])) \<and>
   ((mode e = ''shotstack'' \<longrightarrow> shotstack_loaded e) \<longrightarrow>
      list_all (completed_has_output i) (tl (processVideoWithAI e i [w]))) \<and>
   (\<forall>p. getProjectById i w = Some p \<longrightarrow>
      (\<exists>q. getProjectById i (last (simulateAIProcessing e i [w])) = Some q \<and>
           status q = ''completed'' \<and> progress q = 100 \<and>
           processedVideo q = Some ''demo-video.mp4''))"
  using full_run [of i e w] full_simulation [of i e w] output_run [of e i w]
    last_simulation [of i w _ e]
  by simp


theorem completed_rows_are_full_and_have_output_witness:
  "shotstack_loaded sample_env \<and>
   list_all (completed_is_full ''p1'') (tl (processVideoWithAI sample_env ''p1'' [sample_world])) \<and>
   list_all (completed_has_output ''p1'') (tl (processVideoWithAI sample_env ''p1'' [sample_world])) \<and>
   getProjectById ''p1'' (last (tl (processVideoWithAI sample_env ''p1'' [sample_world]))) =
     Some (sample_project\<lparr>status := ''completed'', progress := 100,
             currentStep := ''Processing completed successfully'',
             thumbnail := Some ''thumbnail-p1.jpg'', processedVideo := Some ''processed-p1.mp4''\<rparr>) \<and>
   getProjectById ''p1'' sample_world = Some sample_project \<and>
   (\<exists>q. getProjectById ''p1'' (last (simulateAIProcessing sample_env ''p1'' [sample_world])) = Some q \<and>
        status q = ''completed'' \<and> progress q = 100 \<and> processedVideo q = Some ''demo-video.mp4'')"
proof -
  have loaded: "shotstack_loaded sample_env"
    by (simp add: sample_env_def)
  show ?thesis
    using completed_rows_are_full_and_have_output [of "''p1''" sample_env sample_world]
      last_of_rows [OF sample_run_rows] loaded
    by (simp add: sample_facts first_rows_def with_status_def with_output_def sample_project_def)
qed

text \<open>
  C3 as the specification states it fails in both converses: the step
  \<^verbatim>\<open>Finalizing video...\<close> writes progress 100 with status \<^verbatim>\<open>processing\<close>, and the states
  between \<^verbatim>\<open>updateProject\<close> and the final status write have processedVideo set on a job
  that is still \<^verbatim>\<open>processing\<close>.
\<close>

theorem finalizing_step_breaks_the_invariant:
  "get_progress ''p1'' (tl (processVideoWithAI sample_env ''p1'' [sample_world]) ! 10)
     = Some (''processing'', 100, ''Finalizing video...'') \<and>
   \<not> full_iff_completed ''p1'' (tl (processVideoWithAI sample_env ''p1'' [sample_world]) ! 10) \<and>
   map_option processedVideo
     (getProjectById ''p1'' (tl (processVideoWithAI sample_env ''p1'' [sample_world]) ! 12))
     = Some (Some ''processed-p1.mp4'') \<and>
   map_option status
     (getProjectById ''p1'' (tl (processVideoWithAI sample_env ''p1'' [sample_world]) ! 12))
     = Some ''processing'' \<and>
   \<not> output_iff_completed ''p1'' (tl (processVideoWithAI sample_env ''p1'' [sample_world]) ! 12)"
  using nth_of_rows [OF sample_run_rows, of 10] nth_of_rows [OF sample_run_rows, of 12]
  by (simp add: first_rows_def get_progress_def full_iff_completed_def output_iff_completed_def)

subsection \<open>The progress checkpoints\<close>

text \<open>
  C5, as the code has it. A run of the real pipeline that succeeds persists, before each
  step, status \<^verbatim>\<open>processing\<close> with these progress values and labels: with the local
  renderer 0, 10, 25, 50, 75 and 100 (five \<^verbatim>\<open>updateProgress\<close> checkpoints after the
  opening write, none at 90); with the cloud renderer 0, 10, 25, 50, 75, 76, 82, 90 and
  100. The last write sets \<^verbatim>\<open>completed\<close> with 100.
\<close>

theorem checkpoints_of_a_successful_run:
  "(\<forall>p ok fs'. getProjectById i w = Some p \<and> \<not> use_shotstack e \<and>
       processVideo e (path_join (uploadsDir e) (originalVideo p))
         (path_join (projectsDir e) (''processed-'' @ pid p @ ''.mp4''))
         (style p) (intensity p) (quality p) (files w) = (Inr ok, fs') \<longrightarrow>
       remdups_adj (polls i (tl (processVideoWithAI e i [w]))) =
         [(''processing'', 0, ''Starting AI processing''),
          (''processing'', 10, ''Analyzing video content...''),
          (''processing'', 25, ''Detecting scenes and cuts...''),
          (''processing'', 50, ''Applying AI editing style...''),
          (''processing'', 75, ''Processing with AI algorithms...''),
          (''processing'', 100, ''Finalizing video...''),
          (''completed'', 100, ''Processing completed successfully'')]) \<and>
   (\<forall>p url downloaded. getProjectById i w = Some p \<and> use_shotstack e \<and>
       cloud e = RenderDone (Some url) downloaded \<and> url \<noteq> [] \<longrightarrow>
       remdups_adj (polls i (tl (processVideoWithAI e i [w]))) =
         [(''processing'', 0, ''Starting AI processing''),
          (''processing'', 10, ''Analyzing video content...''),
          (''processing'', 25, ''Detecting scenes and cuts...''),
          (''processing'', 50, ''Applying AI editing style...''),
          (''processing'', 75, ''Processing with AI algorithms...''),
          (''processing'', 76, ''Uploading to cloud renderer...''),
          (''processing'', 82, ''Submitting cloud render...''),
          (''processing'', 90, ''Rendering in the cloud...''),
          (''processing'', 100, ''Finalizing video...''),
          (''completed'', 100, ''Processing completed successfully'')])"
proof (cases rule: run_cases [of i w e])
  case missing
  then show ?thesis by simp
next
  case (local_fail q m fs')
  then show ?thesis by simp
next
  case (local_ok q ok fs')
  from polls_of_rows [OF local_ok(4)] local_ok(1,2) show ?thesis
    by (cases "mode e = ''shotstack''") (simp_all add: first_rows_def)
next
  case (cloud_fail q m k)
  from cloud_fail(1,2,5) show ?thesis by auto
next
  case (cloud_ok q url downloaded processed extra)
  from polls_of_rows [OF cloud_ok(6)] cloud_ok(1-5) show ?thesis
    by (cases "downloaded = None") (simp_all add: first_rows_def cloud_rows_def)
qed


theorem checkpoints_of_a_successful_run_witness:
  "getProjectById ''p1'' sample_world = Some sample_project \<and> \<not> use_shotstack sample_env \<and>
   fst (processVideo sample_env (path_join (uploadsDir sample_env) (originalVideo sample_project))
         (path_join (projectsDir sample_env) (''processed-'' @ pid sample_project @ ''.mp4''))
         (style sample_project) (intensity sample_project) (quality sample_project)
         (files sample_world)) = Inr True \<and>
   remdups_adj (polls ''p1'' (tl (processVideoWithAI sample_env ''p1'' [sample_world]))) =
         [(''processing'', 0, ''Starting AI processing''),
          (''processing'', 10, ''Analyzing video content...''),
          (''processing'', 25, ''Detecting scenes and cuts...''),
          (''processing'', 50, ''Applying AI editing style...''),
          (''processing'', 75, ''Processing with AI algorithms...''),
          (''processing'', 100, ''Finalizing video...''),
          (''completed'', 100, ''Processing completed successfully'')] \<and>
   use_shotstack cloud_env \<and> cloud cloud_env = RenderDone (Some ''https://cdn.example/out.mp4'') None \<and>
   remdups_adj (polls ''p1'' (tl (processVideoWithAI cloud_env ''p1'' [sample_world]))) =
         [(''processing'', 0, ''Starting AI processing''),
          (''processing'', 10, ''Analyzing video content...''),
          (''processing'', 25, ''Detecting scenes and cuts...''),
          (''processing'', 50, ''Applying AI editing style...''),
          (''processing'', 75, ''Processing with AI algorithms...''),
          (''processing'', 76, ''Uploading to cloud renderer...''),
          (''processing'', 82, ''Submitting cloud render...''),
          (''processing'', 90, ''Rendering in the cloud...''),
          (''processing'', 100, ''Finalizing video...''),
          (''completed'', 100, ''Processing completed successfully'')]"
proof -
  have pv: "fst (processVideo sample_env (path_join (uploadsDir sample_env) (originalVideo sample_project))
         (path_join (projectsDir sample_env) (''processed-'' @ pid sample_project @ ''.mp4''))
         (style sample_project) (intensity sample_project) (quality sample_project)
         (files sample_world)) = Inr True"
    unfolding sample_paths by (rule sample_processVideo)
  then obtain fs' where pv': "processVideo sample_env (path_join (uploadsDir sample_env) (originalVideo sample_project))
         (path_join (projectsDir sample_env) (''processed-'' @ pid sample_project @ ''.mp4''))
         (style sample_project) (intensity sample_project) (quality sample_project)
         (files sample_world) = (Inr True, fs')"
    by (metis prod.collapse)
  have c: "cloud cloud_env = RenderDone (Some ''https://cdn.example/out.mp4'') None"
    by (simp add: cloud_env_def sample_env_def)
  show ?thesis
    using checkpoints_of_a_successful_run [of "''p1''" sample_world sample_env]
      checkpoints_of_a_successful_run [of "''p1''" sample_world cloud_env]
      pv pv' c sample_facts
    by auto
qed

text \<open>
  C5 as the specification states it fails: the local pipeline never writes 90, and writes
  five checkpoints, not six.
\<close>

theorem local_run_has_five_checkpoints:
  "map poll_progress (remdups_adj (polls ''p1'' (tl (processVideoWithAI sample_env ''p1'' [sample_world]))))
     = [0, 10, 25, 50, 75, 100, 100] \<and>
   90 \<notin> set (map poll_progress (polls ''p1'' (tl (processVideoWithAI sample_env ''p1'' [sample_world]))))"
  using polls_of_rows [OF sample_run_rows]
  by (simp add: first_rows_def poll_progress_def)

section \<open>Properties of retry and fallback\<close>















text \<open>
  With the closure \<^verbatim>\<open>run\<close> that the source defines, the first attempt returns:
  \<^verbatim>\<open>processVideoWithAI\<close> and \<^verbatim>\<open>simulateAIProcessing\<close> handle their errors themselves, so
  an error of the processing run is recorded on the job by that first attempt.
\<close>

lemma first_attempt_always_returns:
  assumes "1 \<le> retries"
  shows "startProcessingWithRetry e projectId retries t =
     \<lparr>attempts = 1, backoff = [], fell_back = False,
      final = (if AI_MODE e = Some ''simulate'' then simulateAIProcessing e projectId t
               else processVideoWithAI e projectId t)\<rparr>"
  unfolding startProcessingWithRetry_def
  using assms by (subst startProcessingWithRetry_loop.simps) (simp add: run_def)

section \<open>Properties of the stage library\<close>

lemma known_intensities:
  "multiplier_of (getStyleConfig sty ''light'') = Num (1/2)"
  "multiplier_of (getStyleConfig sty ''medium'') = Num 1"
  "multiplier_of (getStyleConfig sty ''high'') = Num (3/2)"
  "multiplier_of (getStyleConfig sty ''extreme'') = Num 2"
  by (simp_all add: getStyleConfig_def js_get_def js_or_def intensityMultipliers_def Let_def
        split: js_property.split option.split)

lemma unknown_intensity:
  assumes "inten \<notin> {''light'', ''medium'', ''high'', ''extreme''}"
    and "inten \<notin> set object_prototype_names"
  shows "multiplier_of (getStyleConfig sty inten) = Num 1"
  using assms
  by (simp add: getStyleConfig_def js_get_def js_or_def intensityMultipliers_def Let_def
        split: js_property.split option.split)

lemma unknown_style:
  assumes "sty \<notin> {''cinematic'', ''mrbeast'', ''vlog'', ''podcast''}"
    and "sty \<notin> set object_prototype_names"
  shows "getStyleConfig sty inten = getStyleConfig ''cinematic'' inten"
  using assms
  by (simp add: getStyleConfig_def js_get_def js_or_def baseConfigs_def Let_def)

text \<open>
  C6. Style resolution is a function of (style, intensity), the four recognised
  intensities map to 0.5, 1.0, 1.5 and 2.0, and a style or intensity that is neither a
  recognised key nor a property name inherited from \<^verbatim>\<open>Object.prototype\<close> gets the
  cinematic configuration or the multiplier 1.0 (the three lemmas above). At an inherited
  name the lookup finds the inherited member, which is truthy, so the \<^verbatim>\<open>||\<close> default is
  not taken: the style \<^verbatim>\<open>constructor\<close> yields a configuration with no filter at all
  instead of the cinematic one, and the intensity \<^verbatim>\<open>toString\<close> yields a function
  instead of the multiplier 1.0, which then enters the filter chain.
\<close>

theorem inherited_keys_bypass_the_defaults:
  "''constructor'' \<notin> {''cinematic'', ''mrbeast'', ''vlog'', ''podcast''} \<and>
   getStyleConfig ''constructor'' ''medium'' =
     \<lparr>colorGrading = None, contrast = None, sharpness = None, fps = None, multiplier_of = Num 1\<rparr> \<and>
   getStyleConfig ''cinematic'' ''medium'' =
     \<lparr>colorGrading = Some (b_colorGrading cinematic), contrast = Some (b_contrast cinematic),
      sharpness = Some (b_sharpness cinematic), fps = Some 24, multiplier_of = Num 1\<rparr> \<and>
   buildStyleFilters (getStyleConfig ''constructor'' ''medium'') = [] \<and>
   ''toString'' \<notin> {''light'', ''medium'', ''high'', ''extreme''} \<and>
   multiplier_of (getStyleConfig ''cinematic'' ''toString'') = Member ''toString'' \<and>
   last (buildStyleFilters (getStyleConfig ''podcast'' ''toString'')) = IntensityEq (Member ''toString'')"
  by (simp add: getStyleConfig_def js_get_def js_or_def baseConfigs_def intensityMultipliers_def
        object_prototype_names_def Let_def buildStyleFilters_def truthy_string_def cinematic_def
        podcast_def)

section \<open>Properties of the scratch area\<close>

lemma files_last_catchBlock: "files (last (catchBlock i m t)) = files (last t)"
  by (simp add: catchBlock_def last_commit store_simps)

lemma files_last_finishProcessing: "files (last (finishProcessing e p i t)) = files (last t)"
  by (simp add: finishProcessing_def Let_def last_commit store_simps files_last_updateProgress)

lemma files_after_local_run:
  assumes "getProjectById i w = Some p" "\<not> use_shotstack e"
  shows "files (last (processVideoWithAI e i [w])) =
     snd (processVideo e (path_join (uploadsDir e) (originalVideo p))
            (path_join (projectsDir e) (''processed-'' @ pid p @ ''.mp4''))
            (style p) (intensity p) (quality p) (files w))"
  using assms
  by (simp add: processVideoWithAI_def Let_def files_last_firstSteps files_last_catchBlock
        files_last_finishProcessing last_commit split: prod.split sum.split)

lemma quality_fail_processVideo:
  "fst (processVideo quality_fail_env ''/srv/uploads/in.mp4'' ''/srv/projects/processed-p1.mp4''
     ''mrbeast'' ''extreme'' ''1080p'' (files sample_world))
     = Inl ''Command failed: Conversion failed!''"
  by (simp add: processor_defs quality_fail_env_def sample_env_def tool_quality_fail_def
        sample_world_def)

lemma quality_fail_files:
  "map (snd (processVideo quality_fail_env ''/srv/uploads/in.mp4''
     ''/srv/projects/processed-p1.mp4'' ''mrbeast'' ''extreme'' ''1080p'' (files sample_world)))
     [''/srv/projects/temp_processing'', ''/srv/projects/temp_processing/styled.mp4'',
      ''/srv/projects/temp_processing/cut.mp4'', ''/srv/projects/temp_processing/captioned.mp4'',
      ''/srv/projects/processed-p1.mp4'']
   = [Some Dir, Some (File [9]), Some (File [9]), Some (File [9]), None]"
  by (simp add: processor_defs quality_fail_env_def sample_env_def tool_quality_fail_def
        sample_world_def)

lemma sample_files:
  "map (snd (processVideo sample_env ''/srv/uploads/in.mp4''
     ''/srv/projects/processed-p1.mp4'' ''mrbeast'' ''extreme'' ''1080p'' (files sample_world)))
     [''/srv/projects/temp_processing'', ''/srv/projects/temp_processing/styled.mp4'',
      ''/srv/projects/temp_processing/cut.mp4'', ''/srv/projects/temp_processing/captioned.mp4'',
      ''/srv/projects/processed-p1.mp4'']
   = [None, None, None, None, Some (File [9])]"
  by (simp add: processor_defs sample_env_def tool_ok_def sample_world_def)

lemma quality_fail_facts:
  "\<not> use_shotstack quality_fail_env"
  "path_join (uploadsDir quality_fail_env) (originalVideo sample_project) = ''/srv/uploads/in.mp4''"
  "path_join (projectsDir quality_fail_env) (''processed-'' @ pid sample_project @ ''.mp4'')
     = ''/srv/projects/processed-p1.mp4''"
  by (simp_all add: use_shotstack_def mode_def quality_fail_env_def sample_env_def path_join_def
        sample_project_def)

text \<open>
  C8. \<^verbatim>\<open>processVideo\<close> removes its scratch directory as the last statement of its
  \<^verbatim>\<open>try\<close> block only. When the final transcode fails, the job ends in status \<^verbatim>\<open>error\<close>
  and the directory with the three intermediate videos is still on disk; when the run
  succeeds, they are gone and the output file exists.
\<close>

theorem scratch_survives_a_failed_run:
  "get_progress ''p1'' (last (processVideoWithAI quality_fail_env ''p1'' [sample_world]))
     = Some (''error'', 0, ''Error: Command failed: Conversion failed!'') \<and>
   map (files (last (processVideoWithAI quality_fail_env ''p1'' [sample_world])))
     [''/srv/projects/temp_processing'', ''/srv/projects/temp_processing/styled.mp4'',
      ''/srv/projects/temp_processing/cut.mp4'', ''/srv/projects/temp_processing/captioned.mp4'',
      ''/srv/projects/processed-p1.mp4'']
   = [Some Dir, Some (File [9]), Some (File [9]), Some (File [9]), None] \<and>
   map (files (last (processVideoWithAI sample_env ''p1'' [sample_world])))
     [''/srv/projects/temp_processing'', ''/srv/projects/temp_processing/styled.mp4'',
      ''/srv/projects/temp_processing/cut.mp4'', ''/srv/projects/temp_processing/captioned.mp4'',
      ''/srv/projects/processed-p1.mp4'']
   = [None, None, None, None, Some (File [9])]"
proof -
  obtain fs' where pv: "processVideo quality_fail_env
      (path_join (uploadsDir quality_fail_env) (originalVideo sample_project))
      (path_join (projectsDir quality_fail_env) (''processed-'' @ pid sample_project @ ''.mp4''))
      (style sample_project) (intensity sample_project) (quality sample_project)
      (files sample_world) = (Inl ''Command failed: Conversion failed!'', fs')"
    unfolding quality_fail_facts sample_paths
    using quality_fail_processVideo by (metis prod.collapse)
  have rows: "getProjectById ''p1'' (last (tl (processVideoWithAI quality_fail_env ''p1'' [sample_world])))
      = Some (with_status sample_project ''error'' 0 ''Error: Command failed: Conversion failed!'')"
    using last_of_rows [OF rows_local_fail [OF sample_facts(1) quality_fail_facts(1) pv]]
    by simp
  have ne: "tl (processVideoWithAI quality_fail_env ''p1'' [sample_world]) \<noteq> []"
    using rows_local_fail [OF sample_facts(1) quality_fail_facts(1) pv] by auto
  have st: "get_progress ''p1'' (last (processVideoWithAI quality_fail_env ''p1'' [sample_world]))
     = Some (''error'', 0, ''Error: Command failed: Conversion failed!'')"
    using rows ne by (simp add: last_tl get_progress_def)
  have f1: "files (last (processVideoWithAI quality_fail_env ''p1'' [sample_world])) =
      snd (processVideo quality_fail_env ''/srv/uploads/in.mp4''
        ''/srv/projects/processed-p1.mp4'' ''mrbeast'' ''extreme'' ''1080p'' (files sample_world))"
    using files_after_local_run [OF sample_facts(1) quality_fail_facts(1)]
    unfolding quality_fail_facts sample_paths .
  have f2: "files (last (processVideoWithAI sample_env ''p1'' [sample_world])) =
      snd (processVideo sample_env ''/srv/uploads/in.mp4''
        ''/srv/projects/processed-p1.mp4'' ''mrbeast'' ''extreme'' ''1080p'' (files sample_world))"
    using files_after_local_run [OF sample_facts(1) sample_facts(2)]
    unfolding sample_paths .
  show ?thesis
    unfolding f1 f2 using st quality_fail_files sample_files by simp
qed

section \<open>Properties of the optional stages\<close>




lemma copy_existing: "fs src = Some n \<Longrightarrow> copy src dst fs = (Inr (), fs(dst \<mapsto> n))"
  by (simp add: copy_def)

lemma runCommand_keeps:
  "output_path args \<noteq> Some v \<Longrightarrow> snd (runCommand e args fs) v = fs v"
  by (auto simp: runCommand_def split: tool_result.splits option.splits)

lemma runCommand_fail_keeps:
  "fst (runCommand e args fs) = Inl m \<Longrightarrow> snd (runCommand e args fs) = fs"
  by (auto simp: runCommand_def split: tool_result.splits option.splits)

lemma output_path_simps [simp]:
  "output_path versionArgs = None"
  "output_path (extractAudioArgs v a) = Some a"
  "output_path (silenceDetectArgs a) = None"
  "output_path (styleArgs v f out) = Some out"
  "output_path (jumpCutArgs v fc out) = Some out"
  "output_path (captionArgs v c out) = Some out"
  "output_path (qualityArgs v s out) = Some out"
  by (simp_all add: output_path_def versionArgs_def extractAudioArgs_def silenceDetectArgs_def
        styleArgs_def jumpCutArgs_def captionArgs_def qualityArgs_def)





lemma detectScenes_tool_failure:
  assumes "fails_on e (extractAudioArgs videoPath (path_join (dirname outputPath) ''temp_audio.wav'')) fs"
  shows "detectScenes e videoPath outputPath fs = ([], fs)"
  using assms
  by (auto simp: detectScenes_def Let_def runCommand_def fails_on_def split: tool_result.splits)



lemma applyJumpCuts_pass_through:
  assumes "fs v = Some n"
    and "fails_on e (extractAudioArgs v (path_join (dirname out) ''temp_audio.wav'')) fs"
  shows "applyJumpCuts e v out sty fs = (Inr (), fs(out \<mapsto> n))"
  using assms
  by (simp add: applyJumpCuts_def detectScenes_tool_failure copy_def)






















end
